theory Spec2Isabelle
  imports Complex_Main
begin

section \<open>Values at the boundary of the program\<close>

text \<open>
  A JavaScript string is modelled as a \<^typ>\<open>string\<close>: one \<^typ>\<open>char\<close> stands for one
  code unit below 256. A \<open>File\<close> has a name, a MIME type and its bytes.
  A thrown value is either an \<open>Error\<close> object with its message, or a value that is not
  an instance of \<open>Error\<close> (the event a \<open>FileReader\<close> rejects with); the handlers of
  \<open>App.tsx\<close> tell the two apart with \<open>err instanceof Error\<close>.
\<close>

record File =
  file_name :: string
  file_type :: string
  file_bytes :: "nat list"

datatype exn = Error string | NonError

record Point =
  point_x :: int
  point_y :: int

record PinnedFrame =
  style :: string
  topText :: string
  bottomText :: string

record PixelCrop =
  crop_x :: real
  crop_y :: real
  crop_width :: real
  crop_height :: real

text \<open>The tools of the toolbar; the tool \<open>crop\<close> is written \<open>crop_tool\<close>.\<close>

datatype Tool = composite | retouch | replace | creative | adjust | crop_tool | frame | batch

section \<open>The session state of \<open>App\<close>\<close>

text \<open>
  One field for each \<open>useState\<close> cell of \<open>App\<close> that the handlers below read or write
  (the theme, the aspect ratio and the compare flag are left out: no handler modelled
  here touches them). A handler is a function from the state it was rendered with to
  the state after all its \<open>set...\<close> calls have been applied. The \<open>Set\<close> of selected
  indices iterates in insertion order, so it is a list without repetitions.
\<close>

record AppState =
  history :: "File list"
  historyIndex :: int
  prompt :: string
  secondaryPrompt :: string
  isLoading :: bool
  error :: "string option"
  editHotspots :: "Point list"
  displayHotspots :: "(real \<times> real) list"
  activeTool :: Tool
  crop :: "PixelCrop option"
  completedCrop :: "PixelCrop option"
  compositeFiles :: "File list"
  styleSourceIndex :: nat
  batchFiles :: "File list"
  pinnedFrameStyle :: "PinnedFrame option"
  selectedIndices :: "nat list"

definition initialState :: AppState where
  "initialState =
     \<lparr> history = [], historyIndex = - 1, prompt = [], secondaryPrompt = [],
       isLoading = False, error = None, editHotspots = [], displayHotspots = [],
       activeTool = retouch, crop = None, completedCrop = None, compositeFiles = [],
       styleSourceIndex = 0, batchFiles = [], pinnedFrameStyle = None,
       selectedIndices = [] \<rparr>"

text \<open>\<open>history[historyIndex] ?? null\<close>: an index outside the array reads \<open>undefined\<close>.\<close>

definition currentImage :: "AppState \<Rightarrow> File option" where
  "currentImage s =
     (if 0 \<le> historyIndex s \<and> historyIndex s < int (length (history s))
      then Some (history s ! nat (historyIndex s)) else None)"

definition canUndo :: "AppState \<Rightarrow> bool" where
  "canUndo s \<longleftrightarrow> historyIndex s > 0"

definition canRedo :: "AppState \<Rightarrow> bool" where
  "canRedo s \<longleftrightarrow> historyIndex s < int (length (history s)) - 1"

text \<open>
  \<open>xs.slice(0, end)\<close> of JavaScript: a negative \<open>end\<close> counts from the end of the
  array, and the result is clamped to the array.
\<close>

definition slice0 :: "'a list \<Rightarrow> int \<Rightarrow> 'a list" where
  "slice0 xs end =
     (let len = int (length xs);
          final = (if end < 0 then max (len + end) 0 else min end len)
      in take (nat final) xs)"

definition addImageToHistory :: "AppState \<Rightarrow> File \<Rightarrow> AppState" where
  "addImageToHistory s newImageFile =
     (let newHistory = slice0 (history s) (historyIndex s + 1) @ [newImageFile]
      in s\<lparr> history := newHistory,
            historyIndex := int (length newHistory) - 1,
            crop := None,
            completedCrop := None \<rparr>)"

definition handleUndo :: "AppState \<Rightarrow> AppState" where
  "handleUndo s =
     (if canUndo s
      then s\<lparr> historyIndex := historyIndex s - 1, editHotspots := [], displayHotspots := [] \<rparr>
      else s)"

definition handleRedo :: "AppState \<Rightarrow> AppState" where
  "handleRedo s =
     (if canRedo s
      then s\<lparr> historyIndex := historyIndex s + 1, editHotspots := [], displayHotspots := [] \<rparr>
      else s)"


section \<open>Strings\<close>

text \<open>
  \<open>v ? ... : ...\<close> on an optional string: \<open>undefined\<close> and the empty string are falsy.
  \<open>`${v}`\<close> prints \<open>undefined\<close> for a missing value, and \<open>v || ''\<close> is the empty string
  for a falsy one.
\<close>

definition truthy :: "string option \<Rightarrow> bool" where
  "truthy v = (case v of None \<Rightarrow> False | Some x \<Rightarrow> x \<noteq> [])"

definition template :: "string option \<Rightarrow> string" where
  "template v = (case v of None \<Rightarrow> ''undefined'' | Some x \<Rightarrow> x)"

definition or_empty :: "string option \<Rightarrow> string" where
  "or_empty v = (if truthy v then template v else [])"

text \<open>\<open>String.prototype.trim\<close>: the white space and line terminators below code unit 256.\<close>

definition js_whitespace :: "char \<Rightarrow> bool" where
  "js_whitespace ch \<longleftrightarrow> (of_char ch :: nat) \<in> {9, 10, 11, 12, 13, 32, 160}"

definition trim :: "string \<Rightarrow> string" where
  "trim s = rev (dropWhile js_whitespace (rev (dropWhile js_whitespace s)))"

text \<open>\<open>String(n)\<close> for a non-negative integer, and \<open>padStart\<close>.\<close>

fun decimal :: "nat \<Rightarrow> string" where
  "decimal n =
     (if n < 10 then [''0123456789'' ! n]
      else decimal (n div 10) @ [''0123456789'' ! (n mod 10)])"

declare decimal.simps [simp del]

definition padStart :: "nat \<Rightarrow> char \<Rightarrow> string \<Rightarrow> string" where
  "padStart targetLength ch s = replicate (targetLength - length s) ch @ s"

text \<open>\<open>s.split(',')\<close>: the segments between commas; never the empty array.\<close>

fun split_comma :: "string \<Rightarrow> string list" where
  "split_comma [] = [[]]"
| "split_comma (ch # cs) =
     (if ch = CHR '','' then [] # split_comma cs
      else (case split_comma cs of
              [] \<Rightarrow> [[ch]]
            | seg # segs \<Rightarrow> (ch # seg) # segs))"

text \<open>
  \<open>s.match(/:(.*?);/)\<close>, reduced to its first capture group. The regular expression is
  tried at each position from the left. At a colon, the lazy \<open>.*?\<close> stops at the first
  semicolon and cannot cross a line terminator; when it meets one, the search goes on
  after that colon.
\<close>

definition line_terminator :: "char \<Rightarrow> bool" where
  "line_terminator ch \<longleftrightarrow> (of_char ch :: nat) \<in> {10, 13}"

fun lazy_until_semicolon :: "string \<Rightarrow> string option" where
  "lazy_until_semicolon [] = None"
| "lazy_until_semicolon (ch # cs) =
     (if ch = CHR '';'' then Some []
      else if line_terminator ch then None
      else map_option ((#) ch) (lazy_until_semicolon cs))"

fun mimeMatch :: "string \<Rightarrow> string option" where
  "mimeMatch [] = None"
| "mimeMatch (ch # cs) =
     (if ch = CHR '':'' then
        (case lazy_until_semicolon cs of
           Some m \<Rightarrow> Some m
         | None \<Rightarrow> mimeMatch cs)
      else mimeMatch cs)"

section \<open>Image codec helpers\<close>

text \<open>
  \<open>atob\<close> is the forgiving base64 decoding of the HTML standard: ASCII white space is
  removed, up to two padding characters are dropped when the length is a multiple of
  four, a remaining length of 1 modulo 4 or a character outside the alphabet is an
  error (\<open>None\<close>: the \<open>InvalidCharacterError\<close> exception), and each group of four
  characters gives three bytes.
\<close>

definition ascii_whitespace :: "char \<Rightarrow> bool" where
  "ascii_whitespace ch \<longleftrightarrow> (of_char ch :: nat) \<in> {9, 10, 12, 13, 32}"

definition base64_value :: "char \<Rightarrow> nat option" where
  "base64_value ch =
     (let n = (of_char ch :: nat) in
      if 65 \<le> n \<and> n \<le> 90 then Some (n - 65)
      else if 97 \<le> n \<and> n \<le> 122 then Some (n - 71)
      else if 48 \<le> n \<and> n \<le> 57 then Some (n + 4)
      else if n = 43 then Some 62
      else if n = 47 then Some 63
      else None)"

definition strip_padding :: "string \<Rightarrow> string" where
  "strip_padding d =
     (if length d mod 4 = 0 \<and> d \<noteq> [] \<and> last d = CHR ''=''
      then (if butlast d \<noteq> [] \<and> last (butlast d) = CHR ''='' then butlast (butlast d)
            else butlast d)
      else d)"

fun sextets_to_bytes :: "nat list \<Rightarrow> nat list" where
  "sextets_to_bytes (a # b # c # d # rest) =
     [a * 4 + b div 16, (b mod 16) * 16 + c div 4, (c mod 4) * 64 + d] @ sextets_to_bytes rest"
| "sextets_to_bytes [a, b, c] = [a * 4 + b div 16, (b mod 16) * 16 + c div 4]"
| "sextets_to_bytes [a, b] = [a * 4 + b div 16]"
| "sextets_to_bytes _ = []"

definition atob :: "string \<Rightarrow> nat list option" where
  "atob s =
     (let d = strip_padding (filter (\<lambda>ch. \<not> ascii_whitespace ch) s) in
      if length d mod 4 = 1 then None
      else map_option sextets_to_bytes (those (map base64_value d)))"

text \<open>The message of the exception thrown by \<open>atob\<close> (its wording is the browser's).\<close>

definition atob_error :: exn where
  "atob_error = Error ''The string to be decoded is not correctly encoded.''"

text \<open>
  \<open>new File([bytes], name, {type})\<close>: the constructor keeps the name and the bytes.
  It sets the type to the empty string when the given type has a character outside
  U+0020 to U+007E, and otherwise turns the letters \<open>A\<close> to \<open>Z\<close> of the type
  into lower case.
\<close>

definition ascii_lowercase :: "char \<Rightarrow> char" where
  "ascii_lowercase ch =
     (case map_of (zip ''ABCDEFGHIJKLMNOPQRSTUVWXYZ'' ''abcdefghijklmnopqrstuvwxyz'') ch of
        Some lower \<Rightarrow> lower
      | None \<Rightarrow> ch)"

definition blobType :: "string \<Rightarrow> string" where
  "blobType t =
     (if \<exists>ch \<in> set t. (of_char ch :: nat) < 32 \<or> 126 < (of_char ch :: nat) then []
      else map ascii_lowercase t)"

definition newFile :: "nat list \<Rightarrow> string \<Rightarrow> string \<Rightarrow> File" where
  "newFile bytes fileName t =
     \<lparr> file_name = fileName, file_type = blobType t, file_bytes = bytes \<rparr>"

text \<open>\<open>dataURLtoFile\<close> of \<open>App.tsx\<close>.\<close>

definition dataURLtoFile :: "string \<Rightarrow> string \<Rightarrow> exn + File" where
  "dataURLtoFile dataurl filename =
     (let arr = split_comma dataurl in
      if length arr < 2 then Inl (Error ''Invalid data URL'')
      else
        (case mimeMatch (arr ! 0) of
           None \<Rightarrow> Inl (Error ''Could not parse MIME type from data URL'')
         | Some mime \<Rightarrow>
             if mime = [] then Inl (Error ''Could not parse MIME type from data URL'')
             else
               (case atob (arr ! 1) of
                  None \<Rightarrow> Inl atob_error
                | Some bstr \<Rightarrow> Inr (newFile bstr filename mime))))"

section \<open>Edit request gateway (\<open>geminiService.ts\<close>)\<close>

text \<open>
  The response of the remote service, with the optional fields the gateway reads.
  \<open>response_text\<close> is the \<open>text\<close> accessor of the response object.
\<close>

record InlineData =
  mimeType :: "string option"
  data :: "string option"

record Part =
  inlineData :: "InlineData option"
  part_text :: "string option"

record Content =
  parts :: "Part list option"

record Candidate =
  content :: "Content option"
  finishReason :: "string option"

record PromptFeedback =
  blockReason :: "string option"
  blockReasonMessage :: "string option"

record GenerateContentResponse =
  promptFeedback :: "PromptFeedback option"
  candidates :: "Candidate list option"
  response_text :: "string option"

text \<open>
  The request: the parts in the order they are sent. The model identifier and the
  response modalities are the same in every request. The fixed wording of each prompt
  template is left out: an instruction holds the values the template interpolates.
\<close>

datatype Instruction =
    EditInstruction string "Point list"
  | FilterInstruction string
  | AdjustmentInstruction string
  | FrameInstruction string string string
  | CompositeInstruction

datatype RequestPart = InlineDataPart string string | TextPart Instruction

text \<open>
  The two collaborators outside the program: the \<open>FileReader\<close> that turns a file into
  a data URL, and the remote call \<open>ai.models.generateContent\<close>. Each either throws
  (rejects) or returns. Within one run of a handler a collaborator answers equal
  requests equally; each run of a handler has its own collaborators.
\<close>

record Env =
  readAsDataURL :: "File \<Rightarrow> exn + string"
  generateContent :: "RequestPart list \<Rightarrow> exn + GenerateContentResponse"

definition fileToPart :: "Env \<Rightarrow> File \<Rightarrow> exn + RequestPart" where
  "fileToPart env file =
     (case readAsDataURL env file of
        Inl e \<Rightarrow> Inl e
      | Inr dataUrl \<Rightarrow>
          (let arr = split_comma dataUrl in
           if length arr < 2 then Inl (Error ''Invalid data URL'')
           else
             (case mimeMatch (arr ! 0) of
                None \<Rightarrow> Inl (Error ''Could not parse MIME type from data URL'')
              | Some m \<Rightarrow>
                  if m = [] then Inl (Error ''Could not parse MIME type from data URL'')
                  else Inr (InlineDataPart m (arr ! 1)))))"

text \<open>\<open>response.promptFeedback?.blockReason\<close>\<close>

definition response_blockReason :: "GenerateContentResponse \<Rightarrow> string option" where
  "response_blockReason response =
     (case promptFeedback response of None \<Rightarrow> None | Some pf \<Rightarrow> blockReason pf)"

text \<open>\<open>response.candidates?.[0]\<close>\<close>

definition firstCandidate :: "GenerateContentResponse \<Rightarrow> Candidate option" where
  "firstCandidate response =
     (case candidates response of
        None \<Rightarrow> None
      | Some [] \<Rightarrow> None
      | Some (c # _) \<Rightarrow> Some c)"

text \<open>\<open>response.candidates?.[0]?.content?.parts?.find(part => part.inlineData)\<close>\<close>

definition imagePartFromResponse :: "GenerateContentResponse \<Rightarrow> Part option" where
  "imagePartFromResponse response =
     (case firstCandidate response of
        None \<Rightarrow> None
      | Some c \<Rightarrow>
          (case content c of
             None \<Rightarrow> None
           | Some ct \<Rightarrow>
               (case parts ct of
                  None \<Rightarrow> None
                | Some ps \<Rightarrow> find (\<lambda>part. inlineData part \<noteq> None) ps)))"

definition handleApiResponse :: "GenerateContentResponse \<Rightarrow> string \<Rightarrow> exn + string" where
  \<open>handleApiResponse response context =
     (if truthy (response_blockReason response) then
        Inl (Error (''Request was blocked. Reason: '' @ template (response_blockReason response)
                    @ ''. ''
                    @ (case promptFeedback response of
                         None \<Rightarrow> []
                       | Some pf \<Rightarrow> or_empty (blockReasonMessage pf))))
      else
        (case (case imagePartFromResponse response of
                 None \<Rightarrow> None
               | Some part \<Rightarrow> inlineData part) of
           Some inl \<Rightarrow>
             Inr (''data:'' @ template (mimeType inl) @ '';base64,'' @ template (data inl))
         | None \<Rightarrow>
             (let finish = (case firstCandidate response of
                              None \<Rightarrow> None
                            | Some c \<Rightarrow> finishReason c) in
              if truthy finish \<and> finish \<noteq> Some ''STOP'' then
                Inl (Error (''Image generation for '' @ context
                            @ '' stopped unexpectedly. Reason: '' @ template finish
                            @ ''. This often relates to safety settings.''))
              else
                (let textFeedback = map_option trim (response_text response) in
                 Inl (Error (''The AI model did not return an image for the '' @ context @ ''. ''
                      @ (if truthy textFeedback
                         then ''The model responded with text: '' @ [CHR 0x22] @ template textFeedback
                              @ [CHR 0x22]
                         else ''This can happen due to safety filters or if the request is too complex. Please try rephrasing your prompt to be more direct.'')))))))\<close>

text \<open>
  The five operations of the gateway. Each reads the file(s), sends one request and
  classifies the response; a failure at any step is the value \<open>Inl\<close>. The four
  operations on one image have the same body up to the instruction and the context
  word, written once as \<open>sendImageAndText\<close>.
\<close>

definition sendImageAndText ::
  "Env \<Rightarrow> File \<Rightarrow> Instruction \<Rightarrow> string \<Rightarrow> exn + string" where
  "sendImageAndText env originalImage instruction context =
     (case fileToPart env originalImage of
        Inl e \<Rightarrow> Inl e
      | Inr originalImagePart \<Rightarrow>
          (case generateContent env [originalImagePart, TextPart instruction] of
             Inl e \<Rightarrow> Inl e
           | Inr response \<Rightarrow> handleApiResponse response context))"

definition generateEditedImage ::
  "Env \<Rightarrow> File \<Rightarrow> string \<Rightarrow> Point list \<Rightarrow> exn + string" where
  "generateEditedImage env originalImage userPrompt hotspots =
     sendImageAndText env originalImage (EditInstruction userPrompt hotspots) ''edit''"

definition generateFilteredImage :: "Env \<Rightarrow> File \<Rightarrow> string \<Rightarrow> exn + string" where
  "generateFilteredImage env originalImage stylePrompt =
     sendImageAndText env originalImage (FilterInstruction stylePrompt) ''filter''"

definition generateAdjustedImage :: "Env \<Rightarrow> File \<Rightarrow> string \<Rightarrow> exn + string" where
  "generateAdjustedImage env originalImage adjustmentPrompt =
     sendImageAndText env originalImage (AdjustmentInstruction adjustmentPrompt) ''adjustment''"

definition generateFramedImage ::
  "Env \<Rightarrow> File \<Rightarrow> string \<Rightarrow> string \<Rightarrow> string \<Rightarrow> exn + string" where
  "generateFramedImage env originalImage frameStyle top_text bottom_text =
     sendImageAndText env originalImage (FrameInstruction frameStyle top_text bottom_text) ''frame''"

text \<open>
  The composite operation receives the array built by \<open>handleGenerateComposite\<close>, whose
  first element is \<open>undefined\<close> when the style index is outside the working set; reading
  \<open>undefined\<close> as a file throws a \<open>TypeError\<close> (its wording is the browser's).
  \<open>Promise.all\<close> is modelled by the first failure in list order.
\<close>

definition readAsDataURL_TypeError :: exn where
  "readAsDataURL_TypeError = Error ''parameter 1 is not of type Blob.''"

fun filesToParts :: "Env \<Rightarrow> File option list \<Rightarrow> exn + RequestPart list" where
  "filesToParts env [] = Inr []"
| "filesToParts env (None # files) = Inl readAsDataURL_TypeError"
| "filesToParts env (Some file # files) =
     (case fileToPart env file of
        Inl e \<Rightarrow> Inl e
      | Inr part \<Rightarrow>
          (case filesToParts env files of
             Inl e \<Rightarrow> Inl e
           | Inr ps \<Rightarrow> Inr (part # ps)))"

definition generateCompositedImage :: "Env \<Rightarrow> File option list \<Rightarrow> exn + string" where
  "generateCompositedImage env files =
     (if length files < 2 then Inl (Error ''Compositing requires at least two images.'')
      else
        (case filesToParts env files of
           Inl e \<Rightarrow> Inl e
         | Inr imageParts \<Rightarrow>
             (case generateContent env (TextPart CompositeInstruction # imageParts) of
                Inl e \<Rightarrow> Inl e
              | Inr response \<Rightarrow> handleApiResponse response ''composite'')))"

section \<open>Handlers of \<open>App.tsx\<close>\<close>

text \<open>\<open>err instanceof Error ? err.message : fallback\<close>\<close>

definition errorMessage :: "exn \<Rightarrow> string \<Rightarrow> string" where
  "errorMessage err fallback = (case err of Error message \<Rightarrow> message | NonError \<Rightarrow> fallback)"

text \<open>The \<open>catch\<close> and \<open>finally\<close> blocks shared by the asynchronous handlers.\<close>

definition caught :: "AppState \<Rightarrow> exn \<Rightarrow> string \<Rightarrow> AppState" where
  "caught s err fallback = s\<lparr> isLoading := False, error := Some (errorMessage err fallback) \<rparr>"

definition handleStartEditing :: "AppState \<Rightarrow> File \<Rightarrow> AppState" where
  "handleStartEditing s file =
     s\<lparr> error := None, history := [file], historyIndex := 0, compositeFiles := [],
        styleSourceIndex := 0, batchFiles := [], editHotspots := [], displayHotspots := [],
        activeTool := retouch, crop := None, completedCrop := None, selectedIndices := [] \<rparr>"

definition handleCompositeFilesSelect :: "AppState \<Rightarrow> File list option \<Rightarrow> AppState" where
  "handleCompositeFilesSelect s files =
     (case files of
        None \<Rightarrow> s\<lparr> error := Some ''Please select at least two images for compositing.'' \<rparr>
      | Some fs \<Rightarrow>
          if length fs > 1
          then s\<lparr> error := None, compositeFiles := fs, styleSourceIndex := 0 \<rparr>
          else s\<lparr> error := Some ''Please select at least two images for compositing.'' \<rparr>)"

definition handleBatchFilesSelect :: "AppState \<Rightarrow> File list option \<Rightarrow> AppState" where
  "handleBatchFilesSelect s files =
     (case files of
        None \<Rightarrow> s\<lparr> error := Some ''Please select one or more images for batch processing.'' \<rparr>
      | Some fs \<Rightarrow>
          if length fs > 0
          then s\<lparr> error := None, batchFiles := fs, history := [], historyIndex := - 1 \<rparr>
          else s\<lparr> error := Some ''Please select one or more images for batch processing.'' \<rparr>)"

text \<open>\<open>now\<close> is the value of \<open>Date.now()\<close> when the result file is named.\<close>

definition handleGenerate :: "Env \<Rightarrow> nat \<Rightarrow> AppState \<Rightarrow> AppState" where
  "handleGenerate env now s =
     (case currentImage s of
        None \<Rightarrow> s
      | Some img \<Rightarrow>
          if trim (prompt s) = [] then
            s\<lparr> error := Some ''Please enter a description for your edit.'' \<rparr>
          else if length (editHotspots s) = 0 then
            s\<lparr> error := Some ''Please click on the image to select an area to edit.'' \<rparr>
          else
            (case generateEditedImage env img (prompt s) (editHotspots s) of
               Inl err \<Rightarrow> caught s err ''An unknown error occurred.''
             | Inr editedImageUrl \<Rightarrow>
                 (case dataURLtoFile editedImageUrl (''edited-'' @ decimal now @ ''.png'') of
                    Inl err \<Rightarrow> caught s err ''An unknown error occurred.''
                  | Inr newImageFile \<Rightarrow>
                      (addImageToHistory s newImageFile)
                        \<lparr> editHotspots := [], displayHotspots := [], prompt := [],
                          error := None, isLoading := False \<rparr>)))"

text \<open>
  \<open>orderedFiles\<close> of \<open>handleGenerateComposite\<close>: a copy of the working set, from which
  \<open>splice(styleSourceIndex, 1)\<close> removes at most one element, and to which \<open>unshift\<close>
  adds the first removed element (\<open>undefined\<close> when none was removed) at the front.
\<close>

definition orderedFiles :: "'a list \<Rightarrow> nat \<Rightarrow> 'a option list" where
  "orderedFiles files styleIndex =
     (let start = min styleIndex (length files);
          removed = take (min 1 (length files - start)) (drop start files);
          remaining = take start files @ drop (start + length removed) files;
          styleSourceFile = (case removed of [] \<Rightarrow> None | f # _ \<Rightarrow> Some f)
      in styleSourceFile # map Some remaining)"

definition handleGenerateComposite :: "Env \<Rightarrow> nat \<Rightarrow> AppState \<Rightarrow> AppState" where
  "handleGenerateComposite env now s =
     (if length (compositeFiles s) < 2 then s
      else
        (case generateCompositedImage env (orderedFiles (compositeFiles s) (styleSourceIndex s)) of
           Inl err \<Rightarrow> caught s err ''An unknown error occurred during compositing.''
         | Inr compositedImageUrl \<Rightarrow>
             (case dataURLtoFile compositedImageUrl (''composited-'' @ decimal now @ ''.png'') of
                Inl err \<Rightarrow> caught s err ''An unknown error occurred during compositing.''
              | Inr newImageFile \<Rightarrow>
                  s\<lparr> history := [newImageFile], historyIndex := 0, compositeFiles := [],
                     styleSourceIndex := 0, activeTool := retouch,
                     error := None, isLoading := False \<rparr>)))"

definition handleApplyCreativeStyle :: "Env \<Rightarrow> nat \<Rightarrow> AppState \<Rightarrow> string \<Rightarrow> AppState" where
  "handleApplyCreativeStyle env now s stylePrompt =
     (case currentImage s of
        None \<Rightarrow> s
      | Some img \<Rightarrow>
          (case generateFilteredImage env img stylePrompt of
             Inl err \<Rightarrow> caught s err ''An unknown error occurred.''
           | Inr styledImageUrl \<Rightarrow>
               (case dataURLtoFile styledImageUrl (''styled-'' @ decimal now @ ''.png'') of
                  Inl err \<Rightarrow> caught s err ''An unknown error occurred.''
                | Inr newImageFile \<Rightarrow>
                    (addImageToHistory s newImageFile)\<lparr> error := None, isLoading := False \<rparr>)))"

definition handleApplyAdjustment :: "Env \<Rightarrow> nat \<Rightarrow> AppState \<Rightarrow> string \<Rightarrow> AppState" where
  "handleApplyAdjustment env now s adjustmentPrompt =
     (case currentImage s of
        None \<Rightarrow> s
      | Some img \<Rightarrow>
          (case generateAdjustedImage env img adjustmentPrompt of
             Inl err \<Rightarrow> caught s err ''An unknown error occurred.''
           | Inr adjustedImageUrl \<Rightarrow>
               (case dataURLtoFile adjustedImageUrl (''adjusted-'' @ decimal now @ ''.png'') of
                  Inl err \<Rightarrow> caught s err ''An unknown error occurred.''
                | Inr newImageFile \<Rightarrow>
                    (addImageToHistory s newImageFile)\<lparr> error := None, isLoading := False \<rparr>)))"

definition handleReplaceObject :: "Env \<Rightarrow> nat \<Rightarrow> AppState \<Rightarrow> AppState" where
  "handleReplaceObject env now s =
     (case currentImage s of
        None \<Rightarrow> s
      | Some img \<Rightarrow>
          if trim (prompt s) = [] \<or> trim (secondaryPrompt s) = [] then
            s\<lparr> error := Some ''Please fill out both fields.'' \<rparr>
          else
            (case generateAdjustedImage env img
                    (''Replace the '' @ prompt s @ '' with a '' @ secondaryPrompt s @ ''.'') of
               Inl err \<Rightarrow> caught s err ''An unknown error occurred.''
             | Inr replacedImageUrl \<Rightarrow>
                 (case dataURLtoFile replacedImageUrl (''replaced-'' @ decimal now @ ''.png'') of
                    Inl err \<Rightarrow> caught s err ''An unknown error occurred.''
                  | Inr newImageFile \<Rightarrow>
                      (addImageToHistory s newImageFile)
                        \<lparr> prompt := [], secondaryPrompt := [],
                          error := None, isLoading := False \<rparr>)))"

definition handleApplyFrame :: "Env \<Rightarrow> nat \<Rightarrow> AppState \<Rightarrow> PinnedFrame \<Rightarrow> AppState" where
  "handleApplyFrame env now s details =
     (case currentImage s of
        None \<Rightarrow> s
      | Some img \<Rightarrow>
          if trim (style details) = [] then
            s\<lparr> error := Some ''Please describe the frame style.'' \<rparr>
          else
            (case generateFramedImage env img (style details) (topText details)
                    (bottomText details) of
               Inl err \<Rightarrow> caught s err ''An unknown error occurred while adding the frame.''
             | Inr framedImageUrl \<Rightarrow>
                 (case dataURLtoFile framedImageUrl (''framed-'' @ decimal now @ ''.png'') of
                    Inl err \<Rightarrow> caught s err ''An unknown error occurred while adding the frame.''
                  | Inr newImageFile \<Rightarrow>
                      (addImageToHistory s newImageFile)\<lparr> error := None, isLoading := False \<rparr>)))"

text \<open>
  The loop of \<open>handleApplyFrameToBatch\<close>. It returns the \<open>results\<close> array as it stands
  when the loop ends, the files for which \<open>generateFramedImage\<close> was called, in order,
  and the exception that ended the loop, if any.
\<close>

fun batchLoop ::
  "Env \<Rightarrow> PinnedFrame \<Rightarrow> File list \<Rightarrow> File list \<Rightarrow> File list \<times> File list \<times> exn option" where
  "batchLoop env pinned [] results = (results, [], None)"
| "batchLoop env pinned (file # rest) results =
     (case generateFramedImage env file (style pinned) (topText pinned) (bottomText pinned) of
        Inl err \<Rightarrow> (results, [file], Some err)
      | Inr framedImageUrl \<Rightarrow>
          (case dataURLtoFile framedImageUrl (''framed-batch-'' @ file_name file @ ''.png'') of
             Inl err \<Rightarrow> (results, [file], Some err)
           | Inr newImageFile \<Rightarrow>
               (case batchLoop env pinned rest (results @ [newImageFile]) of
                  (results', attempted, thrown) \<Rightarrow> (results', file # attempted, thrown))))"

definition handleApplyFrameToBatch :: "Env \<Rightarrow> AppState \<Rightarrow> AppState" where
  "handleApplyFrameToBatch env s =
     (case pinnedFrameStyle s of
        None \<Rightarrow> s
      | Some pinned \<Rightarrow>
          if length (batchFiles s) = 0 then s
          else
            (case batchLoop env pinned (batchFiles s) [] of
               (results, attempted, None) \<Rightarrow>
                 s\<lparr> history := results, historyIndex := int (length results) - 1,
                    batchFiles := [], activeTool := retouch,
                    error := None, isLoading := False \<rparr>
             | (results, attempted, Some err) \<Rightarrow>
                 (if length results > 0
                  then (caught s err ''An error occurred during batch processing. Some images may not have been processed.'')
                         \<lparr> history := results, historyIndex := int (length results) - 1 \<rparr>
                  else caught s err ''An error occurred during batch processing. Some images may not have been processed.'')))"

text \<open>
  \<open>handleApplyCrop\<close> draws on a canvas: either there is no image element, or no
  drawing context, or the canvas renders a data URL. The decoding is outside any
  \<open>try\<close>, so when it throws no state is set.
\<close>

datatype CropSurface = NoImage | NoContext | Rendered string

definition handleApplyCrop :: "CropSurface \<Rightarrow> nat \<Rightarrow> AppState \<Rightarrow> AppState" where
  "handleApplyCrop surface now s =
     (if completedCrop s = None \<or> surface = NoImage then
        s\<lparr> error := Some ''Please select an area to crop.'' \<rparr>
      else
        (case surface of
           NoImage \<Rightarrow> s
         | NoContext \<Rightarrow> s\<lparr> error := Some ''Could not process the crop.'' \<rparr>
         | Rendered croppedImageUrl \<Rightarrow>
             (case dataURLtoFile croppedImageUrl (''cropped-'' @ decimal now @ ''.png'') of
                Inl err \<Rightarrow> s
              | Inr newImageFile \<Rightarrow> addImageToHistory s newImageFile)))"

definition handleReset :: "AppState \<Rightarrow> AppState" where
  "handleReset s =
     (if length (history s) > 0
      then s\<lparr> historyIndex := 0, error := None, editHotspots := [], displayHotspots := [],
              selectedIndices := [] \<rparr>
      else s)"

definition handleUploadNew :: "AppState \<Rightarrow> AppState" where
  "handleUploadNew s =
     s\<lparr> history := [], historyIndex := - 1, error := None, prompt := [],
        editHotspots := [], displayHotspots := [], compositeFiles := [],
        styleSourceIndex := 0, batchFiles := [], activeTool := retouch,
        selectedIndices := [] \<rparr>"

text \<open>The click on the history thumbnail at position \<open>index\<close>.\<close>

definition thumbnailClick :: "AppState \<Rightarrow> nat \<Rightarrow> AppState" where
  "thumbnailClick s index =
     s\<lparr> historyIndex := int index, editHotspots := [], displayHotspots := [] \<rparr>"

definition handleToggleSelection :: "AppState \<Rightarrow> nat \<Rightarrow> AppState" where
  "handleToggleSelection s index =
     s\<lparr> selectedIndices :=
          (if index \<in> set (selectedIndices s)
           then filter (\<lambda>i. i \<noteq> index) (selectedIndices s)
           else selectedIndices s @ [index]) \<rparr>"

section \<open>Archive export\<close>

text \<open>
  \<open>file.name.replace(/[^a-z0-9_.\-]/gi, '_')\<close>: with the flag \<open>i\<close> the class holds the
  letters of both cases; with the flag \<open>g\<close> every code unit outside the class is
  replaced.
\<close>

definition in_class :: "char \<Rightarrow> bool" where
  "in_class ch =
     (let n = (of_char ch :: nat) in
      (97 \<le> n \<and> n \<le> 122) \<or> (65 \<le> n \<and> n \<le> 90) \<or> (48 \<le> n \<and> n \<le> 57)
      \<or> ch = CHR ''_'' \<or> ch = CHR ''.'' \<or> ch = CHR ''-'')"

definition sanitized :: "string \<Rightarrow> string" where
  "sanitized fileName = map (\<lambda>ch. if in_class ch then ch else CHR ''_'') fileName"

definition entryName :: "nat \<Rightarrow> File \<Rightarrow> string" where
  "entryName index file =
     padStart 3 (CHR ''0'') (decimal index) @ ''_'' @ sanitized (file_name file)"

text \<open>\<open>zip.file(name, data)\<close>: a new entry, or the replacement of the entry of that name.\<close>

fun zip_file :: "string \<Rightarrow> File \<Rightarrow> (string \<times> File) list \<Rightarrow> (string \<times> File) list" where
  "zip_file entry file [] = [(entry, file)]"
| "zip_file entry file ((n, f) # entries) =
     (if n = entry then (entry, file) # entries else (n, f) # zip_file entry file entries)"

text \<open>
  The \<open>forEach\<close> of \<open>handleDownloadZip\<close>, from position \<open>index\<close> on. An element that is
  \<open>undefined\<close> (a selected index beyond the history) makes \<open>file.name\<close> throw a
  \<open>TypeError\<close> (its wording is the JavaScript engine's).
\<close>

definition undefined_name_TypeError :: exn where
  "undefined_name_TypeError = Error ''Cannot read properties of undefined (reading name)''"

fun addEntries ::
  "File option list \<Rightarrow> nat \<Rightarrow> (string \<times> File) list \<Rightarrow> exn + (string \<times> File) list" where
  "addEntries [] index entries = Inr entries"
| "addEntries (None # files) index entries = Inl undefined_name_TypeError"
| "addEntries (Some file # files) index entries =
     addEntries files (index + 1) (zip_file (entryName index file) file entries)"

text \<open>
  The archive library is loaded on demand and builds the archive asynchronously;
  either step may throw. The download that the handler triggers is returned next to
  the state: the name of the downloaded file and the entries of the archive.
\<close>

record ZipEnv =
  importJSZip :: "exn option"
  generateAsync :: "exn option"

definition handleDownloadZip ::
  "ZipEnv \<Rightarrow> AppState \<Rightarrow> File option list \<Rightarrow> string
     \<Rightarrow> AppState \<times> (string \<times> (string \<times> File) list) option" where
  "handleDownloadZip zenv s filesToZip archiveName =
     (if length filesToZip = 0 then
        (s\<lparr> error := Some ''No images selected to download.'' \<rparr>, None)
      else
        (case importJSZip zenv of
           Some err \<Rightarrow> (caught s err ''Failed to create zip archive.'', None)
         | None \<Rightarrow>
             (case addEntries filesToZip 0 [] of
                Inl err \<Rightarrow> (caught s err ''Failed to create zip archive.'', None)
              | Inr entries \<Rightarrow>
                  (case generateAsync zenv of
                     Some err \<Rightarrow> (caught s err ''Failed to create zip archive.'', None)
                   | None \<Rightarrow>
                       (s\<lparr> selectedIndices := [], error := None, isLoading := False \<rparr>,
                        Some (archiveName @ ''.zip'', entries))))))"

text \<open>The two download buttons: the selected entries, and the whole history.\<close>

definition downloadSelected ::
  "ZipEnv \<Rightarrow> AppState \<Rightarrow> AppState \<times> (string \<times> (string \<times> File) list) option" where
  "downloadSelected zenv s =
     handleDownloadZip zenv s
       (map (\<lambda>i. if i < length (history s) then Some (history s ! i) else None)
            (selectedIndices s))
       ''dreamcraft_selection''"

definition downloadHistory ::
  "ZipEnv \<Rightarrow> AppState \<Rightarrow> AppState \<times> (string \<times> (string \<times> File) list) option" where
  "downloadHistory zenv s =
     handleDownloadZip zenv s (map Some (history s)) ''dreamcraft_session_history''"

section \<open>Hotspots\<close>

text \<open>
  A click on the displayed image. The numbers of the event are doubles, written here
  as the real numbers they stand for. The subtraction, multiplication and division of
  doubles round their results, so they are not those of the real numbers: they are
  taken from the platform, as three operations. \<open>Math.round\<close> is exact: it rounds half
  up. A displayed image has a positive client width and height.
\<close>

record Doubles =
  double_minus :: "real \<Rightarrow> real \<Rightarrow> real"
  double_times :: "real \<Rightarrow> real \<Rightarrow> real"
  double_divide :: "real \<Rightarrow> real \<Rightarrow> real"

record Click =
  clientX :: real
  clientY :: real
  rect_left :: real
  rect_top :: real
  naturalWidth :: real
  naturalHeight :: real
  clientWidth :: real
  clientHeight :: real

definition math_round :: "real \<Rightarrow> int" where
  "math_round x = \<lfloor>x + 1 / 2\<rfloor>"

definition handleImageClick :: "Doubles \<Rightarrow> AppState \<Rightarrow> Click \<Rightarrow> AppState" where
  "handleImageClick fp s e =
     (if activeTool s \<noteq> retouch then s
      else
        (let offsetX = double_minus fp (clientX e) (rect_left e);
             offsetY = double_minus fp (clientY e) (rect_top e);
             scaleX = double_divide fp (naturalWidth e) (clientWidth e);
             scaleY = double_divide fp (naturalHeight e) (clientHeight e);
             originalX = math_round (double_times fp offsetX scaleX);
             originalY = math_round (double_times fp offsetY scaleY)
         in s\<lparr> displayHotspots := displayHotspots s @ [(offsetX, offsetY)],
               editHotspots := editHotspots s @ [\<lparr> point_x = originalX, point_y = originalY \<rparr>] \<rparr>))"

definition handleUndoHotspot :: "AppState \<Rightarrow> AppState" where
  "handleUndoHotspot s =
     s\<lparr> displayHotspots := slice0 (displayHotspots s) (- 1),
        editHotspots := slice0 (editHotspots s) (- 1) \<rparr>"

section \<open>The frame panel (\<open>FramePanel.tsx\<close>)\<close>

text \<open>
  The three fields of the form are a value of the same shape as a pinned style.
  \<open>isPinned\<close> is the value the effect of the panel stores after each change of the
  fields or of the pinned style. \<open>handlePin\<close> gives the argument of \<open>onPinFrame\<close>, which
  \<open>App\<close> wires to the setter of \<open>pinnedFrameStyle\<close>; when the handler returns without
  calling it, the pinned style stays.
\<close>

definition isPinned :: "PinnedFrame option \<Rightarrow> PinnedFrame \<Rightarrow> bool" where
  "isPinned pinned form =
     (case pinned of
        Some p \<Rightarrow> style p = style form \<and> topText p = topText form \<and> bottomText p = bottomText form
      | None \<Rightarrow> False)"

definition handlePin :: "PinnedFrame option \<Rightarrow> PinnedFrame \<Rightarrow> PinnedFrame option" where
  "handlePin pinned form =
     (if isPinned pinned form then None
      else if trim (style form) = [] then pinned
      else Some \<lparr> style = style form, topText = topText form, bottomText = bottomText form \<rparr>)"

section \<open>Sessions\<close>

text \<open>
  The events of a session: one for each handler, and one for each setter that the
  panels call directly. The thumbnails of the history and of the composite working set
  exist for the positions of these lists only, so a click on one carries such a
  position.
\<close>

datatype Event =
    StartEditing File
  | CompositeFilesSelect "File list option"
  | BatchFilesSelect "File list option"
  | Generate
  | GenerateComposite
  | ApplyCreativeStyle string
  | ApplyAdjustment string
  | ReplaceObject
  | ApplyFrame PinnedFrame
  | PinFrame PinnedFrame
  | ApplyFrameToBatch
  | ApplyCrop CropSurface
  | Undo
  | Redo
  | Reset
  | UploadNew
  | ThumbnailClick nat
  | ToggleSelection nat
  | DownloadSelected ZipEnv
  | DownloadHistory ZipEnv
  | ImageClick Doubles Click
  | UndoHotspot
  | SetActiveTool Tool
  | SetPrompt string
  | SetSecondaryPrompt string
  | SetStyleSourceIndex nat
  | CompositeStartOver
  | DismissError
  | SetCompletedCrop "PixelCrop option"

fun step :: "Env \<Rightarrow> nat \<Rightarrow> AppState \<Rightarrow> Event \<Rightarrow> AppState" where
  "step env now s (StartEditing file) = handleStartEditing s file"
| "step env now s (CompositeFilesSelect files) = handleCompositeFilesSelect s files"
| "step env now s (BatchFilesSelect files) = handleBatchFilesSelect s files"
| "step env now s Generate = handleGenerate env now s"
| "step env now s GenerateComposite = handleGenerateComposite env now s"
| "step env now s (ApplyCreativeStyle p) = handleApplyCreativeStyle env now s p"
| "step env now s (ApplyAdjustment p) = handleApplyAdjustment env now s p"
| "step env now s ReplaceObject = handleReplaceObject env now s"
| "step env now s (ApplyFrame details) = handleApplyFrame env now s details"
| "step env now s (PinFrame form) = s\<lparr> pinnedFrameStyle := handlePin (pinnedFrameStyle s) form \<rparr>"
| "step env now s ApplyFrameToBatch = handleApplyFrameToBatch env s"
| "step env now s (ApplyCrop surface) = handleApplyCrop surface now s"
| "step env now s Undo = handleUndo s"
| "step env now s Redo = handleRedo s"
| "step env now s Reset = handleReset s"
| "step env now s UploadNew = handleUploadNew s"
| "step env now s (ThumbnailClick i) = (if i < length (history s) then thumbnailClick s i else s)"
| "step env now s (ToggleSelection i) =
     (if i < length (history s) then handleToggleSelection s i else s)"
| "step env now s (DownloadSelected zenv) = fst (downloadSelected zenv s)"
| "step env now s (DownloadHistory zenv) = fst (downloadHistory zenv s)"
| "step env now s (ImageClick fp e) = handleImageClick fp s e"
| "step env now s UndoHotspot = handleUndoHotspot s"
| "step env now s (SetActiveTool tool) = s\<lparr> activeTool := tool \<rparr>"
| "step env now s (SetPrompt p) = s\<lparr> prompt := p \<rparr>"
| "step env now s (SetSecondaryPrompt p) = s\<lparr> secondaryPrompt := p \<rparr>"
| "step env now s (SetStyleSourceIndex i) =
     (if i < length (compositeFiles s) then s\<lparr> styleSourceIndex := i \<rparr> else s)"
| "step env now s CompositeStartOver = s\<lparr> compositeFiles := [], styleSourceIndex := 0 \<rparr>"
| "step env now s DismissError = s\<lparr> error := None \<rparr>"
| "step env now s (SetCompletedCrop c) = s\<lparr> completedCrop := c \<rparr>"

text \<open>The states a session can be in: the initial one, and those an event leads to.\<close>

inductive reachable :: "AppState \<Rightarrow> bool" where
  reachable_initial: "reachable initialState"
| reachable_step: "reachable s \<Longrightarrow> reachable (step env now s ev)"

section \<open>Sample values\<close>

definition sampleFile :: "string \<Rightarrow> File" where
  "sampleFile n = \<lparr> file_name = n, file_type = ''image/png'', file_bytes = [] \<rparr>"

definition sampleState :: "File list \<Rightarrow> int \<Rightarrow> AppState" where
  "sampleState files i = initialState\<lparr> history := files, historyIndex := i \<rparr>"

text \<open>
  A remote service that answers every request with one image, a reader that yields a
  data URL for every file, and a remote service that is out of reach.
\<close>

definition sampleResponse :: GenerateContentResponse where
  "sampleResponse =
     \<lparr> promptFeedback = None,
       candidates = Some [\<lparr> content = Some \<lparr> parts = Some
           [\<lparr> inlineData = Some \<lparr> mimeType = Some ''image/png'', data = Some ''QUJD'' \<rparr>,
              part_text = None \<rparr>] \<rparr>,
         finishReason = Some ''STOP'' \<rparr>],
       response_text = None \<rparr>"

definition sampleReader :: "File \<Rightarrow> exn + string" where
  "sampleReader file = Inr (''data:'' @ file_type file @ '';base64,QUJD'')"

definition sampleEnv :: Env where
  "sampleEnv = \<lparr> readAsDataURL = sampleReader, generateContent = (\<lambda>request. Inr sampleResponse) \<rparr>"

definition offlineEnv :: Env where
  "offlineEnv =
     \<lparr> readAsDataURL = sampleReader,
       generateContent = (\<lambda>request. Inl (Error ''Failed to fetch'')) \<rparr>"

text \<open>
  A click whose numbers the operations of doubles compute without rounding, so that on
  them the operations are those of the real numbers.
\<close>

definition exactDoubles :: Doubles where
  "exactDoubles = \<lparr> double_minus = (-), double_times = (*), double_divide = (/) \<rparr>"

definition sampleClick :: Click where
  "sampleClick =
     \<lparr> clientX = 30, clientY = 45, rect_left = 10, rect_top = 5,
       naturalWidth = 800, naturalHeight = 600, clientWidth = 400, clientHeight = 300 \<rparr>"






text \<open>
  A reader whose payload is the name of the file, so that the requests for files of
  different names differ, and a remote service that fails on the file named \<open>s2\<close>.
\<close>

definition namingReader :: "File \<Rightarrow> exn + string" where
  "namingReader file = Inr (''data:'' @ file_type file @ '';base64,'' @ file_name file)"

definition flakyEnv :: Env where
  "flakyEnv =
     \<lparr> readAsDataURL = namingReader,
       generateContent = (\<lambda>request.
          if InlineDataPart ''image/png'' ''s2'' \<in> set request
          then Inl (Error ''Failed to fetch'') else Inr sampleResponse) \<rparr>"

text \<open>
  A session: an upload, a click on the image, a prompt, a composite selection in the
  composite tool, and the change to the filter tool.
\<close>

definition sampleSession :: AppState where
  "sampleSession =
     foldl (step sampleEnv 0) initialState
       [StartEditing (sampleFile ''a''), ImageClick exactDoubles sampleClick, SetPrompt ''make it blue'',
        SetActiveTool composite,
        CompositeFilesSelect (Some [sampleFile ''i0'', sampleFile ''i1'']),
        SetActiveTool creative]"

text \<open>
  A remote service that rejects every request with a message listing the parts it
  received, in order: the word \<open>text\<close> for a text part, the data for an image part.
\<close>

fun partData :: "RequestPart \<Rightarrow> string" where
  "partData (InlineDataPart m d) = d @ '',''"
| "partData (TextPart instruction) = ''text,''"

definition echoEnv :: Env where
  "echoEnv =
     \<lparr> readAsDataURL = namingReader,
       generateContent = (\<lambda>request. Inl (Error (concat (map partData request)))) \<rparr>"

text \<open>
  A session in which, after an upload, three files are chosen in the composite tool
  and the third is made the style source.
\<close>

definition compositeSession :: AppState where
  "compositeSession =
     foldl (step echoEnv 0) initialState
       [StartEditing (sampleFile ''a''), SetActiveTool composite,
        CompositeFilesSelect (Some [sampleFile ''i0'', sampleFile ''i1'', sampleFile ''i2'']),
        SetStyleSourceIndex 2]"

text \<open>
  A session in which, after an upload, a frame style is pinned in the frame tool and
  three files are chosen in the batch tool.
\<close>

definition batchSession :: AppState where
  "batchSession =
     foldl (step flakyEnv 0) initialState
       [StartEditing (sampleFile ''a''), SetActiveTool frame,
        PinFrame \<lparr> style = ''gold'', topText = ''The Creator'', bottomText = [] \<rparr>,
        SetActiveTool batch,
        BatchFilesSelect (Some [sampleFile ''s1'', sampleFile ''s2'', sampleFile ''s3''])]"

section \<open>Notions used to state the properties\<close>


definition batchMessage :: string where
  "batchMessage = ''An error occurred during batch processing. Some images may not have been processed.''"

text \<open>
  A list with the element at position \<open>i\<close> moved to the front, the others keeping
  their order.
\<close>

definition styleSourceFirst :: "'a list \<Rightarrow> nat \<Rightarrow> 'a list" where
  "styleSourceFirst files i = files ! i # take i files @ drop (Suc i) files"

text \<open>
  The segment of a string before its first comma, and the rest after that comma.
\<close>

definition before_comma :: "string \<Rightarrow> string" where
  "before_comma u = takeWhile (\<lambda>ch. ch \<noteq> CHR '','') u"

definition after_comma :: "string \<Rightarrow> string" where
  "after_comma u = drop 1 (dropWhile (\<lambda>ch. ch \<noteq> CHR '','') u)"

text \<open>The number a string of decimal digits stands for.\<close>

definition digit_value :: "char \<Rightarrow> nat" where
  "digit_value ch = of_char ch - 48"

definition decimal_value :: "string \<Rightarrow> nat" where
  "decimal_value ds = foldl (\<lambda>acc ch. 10 * acc + digit_value ch) 0 ds"

definition is_digit :: "char \<Rightarrow> bool" where
  "is_digit ch \<longleftrightarrow> ch \<in> set ''0123456789''"

text \<open>The index part of an entry name, and the entries of an archive of \<open>files\<close>.\<close>

definition indexPrefix :: "nat \<Rightarrow> string" where
  "indexPrefix i = padStart 3 (CHR ''0'') (decimal i)"

definition archiveEntries :: "nat \<Rightarrow> File list \<Rightarrow> (string \<times> File) list" where
  "archiveEntries k files = map (\<lambda>(i, f). (entryName i f, f)) (List.enumerate k files)"

section \<open>The edit history\<close>

lemma slice0_take: "- 1 \<le> i \<Longrightarrow> slice0 xs (i + 1) = take (nat (i + 1)) xs"
  by (simp add: slice0_def Let_def min_def)

text \<open>
  C1. Appending an asset keeps the history entries up to and including the cursor,
  puts the asset after them and moves the cursor to the new last index. From history
  \<open>[a, b, c]\<close> at cursor 2, two undos followed by appending \<open>d\<close> give history \<open>[a, d]\<close>
  at cursor 1, and a redo then changes nothing. The cursor of a session is never
  below \<open>-1\<close>, the value it has for the empty history.
\<close>

theorem append_truncates_then_appends:
  assumes "- 1 \<le> historyIndex s"
  shows "history (addImageToHistory s x) = take (nat (historyIndex s + 1)) (history s) @ [x]
       \<and> historyIndex (addImageToHistory s x) = int (length (history (addImageToHistory s x))) - 1
       \<and> (history s = [a, b, c] \<and> historyIndex s = 2 \<longrightarrow>
           history (addImageToHistory (handleUndo (handleUndo s)) d) = [a, d] \<and>
           historyIndex (addImageToHistory (handleUndo (handleUndo s)) d) = 1 \<and>
           handleRedo (addImageToHistory (handleUndo (handleUndo s)) d) =
             addImageToHistory (handleUndo (handleUndo s)) d)"
proof (intro conjI)
  show "history (addImageToHistory s x) = take (nat (historyIndex s + 1)) (history s) @ [x]"
    using assms by (simp add: addImageToHistory_def slice0_take)
  show "historyIndex (addImageToHistory s x) = int (length (history (addImageToHistory s x))) - 1"
    by (simp add: addImageToHistory_def Let_def)
  show "history s = [a, b, c] \<and> historyIndex s = 2 \<longrightarrow>
           history (addImageToHistory (handleUndo (handleUndo s)) d) = [a, d] \<and>
           historyIndex (addImageToHistory (handleUndo (handleUndo s)) d) = 1 \<and>
           handleRedo (addImageToHistory (handleUndo (handleUndo s)) d) =
             addImageToHistory (handleUndo (handleUndo s)) d"
    by (simp add: addImageToHistory_def handleUndo_def handleRedo_def canUndo_def canRedo_def
        slice0_def Let_def)
qed

theorem append_truncates_then_appends_witness:
  "- 1 \<le> historyIndex (sampleState [sampleFile ''a'', sampleFile ''b'', sampleFile ''c''] 2)
   \<and> history (addImageToHistory (handleUndo (handleUndo
        (sampleState [sampleFile ''a'', sampleFile ''b'', sampleFile ''c''] 2))) (sampleFile ''d''))
      = [sampleFile ''a'', sampleFile ''d'']
   \<and> historyIndex (addImageToHistory (handleUndo (handleUndo
        (sampleState [sampleFile ''a'', sampleFile ''b'', sampleFile ''c''] 2))) (sampleFile ''d'')) = 1"
  using append_truncates_then_appends
    [of "sampleState [sampleFile ''a'', sampleFile ''b'', sampleFile ''c''] 2"
        "sampleFile ''d''" "sampleFile ''a''" "sampleFile ''b''" "sampleFile ''c''" "sampleFile ''d''"]
  by (simp add: sampleState_def)

text \<open>
  The cursor of every state a session can reach is \<open>-1\<close> or a position of the history,
  so the assumption of the theorem above holds in every session.
\<close>

lemma caught_history [simp]:
  "history (caught s e m) = history s" "historyIndex (caught s e m) = historyIndex s"
  by (simp_all add: caught_def)

lemma addImageToHistory_cursor_upd [simp]:
  "historyIndex (addImageToHistory s f) = int (length (history (addImageToHistory s f))) - 1"
  "history (addImageToHistory s f) \<noteq> []"
  by (simp_all add: addImageToHistory_def Let_def)

lemma step_keeps_cursor_in_range:
  assumes "- 1 \<le> historyIndex s \<and> historyIndex s < int (length (history s))"
  shows "- 1 \<le> historyIndex (step env now s ev)
     \<and> historyIndex (step env now s ev) < int (length (history (step env now s ev)))"
proof (cases ev)
  case (DownloadSelected z)
  then show ?thesis using assms
    by (auto simp: downloadSelected_def handleDownloadZip_def caught_def
        split: option.splits sum.splits)
next
  case (DownloadHistory z)
  then show ?thesis using assms
    by (auto simp: downloadHistory_def handleDownloadZip_def caught_def
        split: option.splits sum.splits)
next
  case ApplyFrameToBatch
  then show ?thesis using assms
    by (simp add: handleApplyFrameToBatch_def split: option.splits prod.splits)
qed (use assms in \<open>auto simp: handleStartEditing_def handleCompositeFilesSelect_def
      handleBatchFilesSelect_def handleGenerate_def handleGenerateComposite_def
      handleApplyCreativeStyle_def handleApplyAdjustment_def handleReplaceObject_def
      handleApplyFrame_def handleApplyCrop_def handleUndo_def canUndo_def canRedo_def
      handleRedo_def handleReset_def handleUploadNew_def thumbnailClick_def
      handleToggleSelection_def handleImageClick_def handleUndoHotspot_def Let_def
      split: option.splits sum.splits CropSurface.splits\<close>)

lemma reachable_cursor_in_range:
  "reachable s \<Longrightarrow> - 1 \<le> historyIndex s \<and> historyIndex s < int (length (history s))"
proof (induction rule: reachable.induct)
  case reachable_initial
  show ?case by (simp add: initialState_def)
next
  case (reachable_step s env now ev)
  from reachable_step.IH show ?case by (rule step_keeps_cursor_in_range)
qed

section \<open>Composite selection\<close>

lemma orderedFiles_in_bounds:
  assumes "i < length files"
  shows "orderedFiles files i = map Some (styleSourceFirst files i)"
proof -
  have "drop i files = files ! i # drop (Suc i) files"
    using assms by (simp add: Cons_nth_drop_Suc)
  moreover have "min i (length files) = i" "min 1 (length files - i) = 1"
    using assms by simp_all
  ultimately show ?thesis
    by (simp add: orderedFiles_def styleSourceFirst_def Let_def)
qed

lemma filesToParts_order:
  "filesToParts env (map Some fs) = Inr ps \<Longrightarrow> map Inr ps = map (fileToPart env) fs"
  by (induction fs arbitrary: ps) (auto split: sum.splits)

lemma styleSourceFirst_length: "i < length files \<Longrightarrow> length (styleSourceFirst files i) = length files"
  by (simp add: styleSourceFirst_def)

text \<open>
  C5. For a working set of at least two files and a style index inside it, composite
  generation calls the composite operation of the gateway on the working set with the
  element at the style index moved to the front, the others keeping their order, and
  continues with what that call returns. When the files of this list are read into the
  parts \<open>ps\<close>, the one request of that call is the text part followed by \<open>ps\<close>, which are
  the parts of the files of the list in its order. For the working set \<open>[i0, i1, i2]\<close>
  and index 2 the list is \<open>[i2, i0, i1]\<close>.
\<close>

theorem composite_style_source_first:
  assumes "styleSourceIndex s < length (compositeFiles s)"
    and "2 \<le> length (compositeFiles s)"
  shows "handleGenerateComposite env now s =
           (case generateCompositedImage env
                   (map Some (styleSourceFirst (compositeFiles s) (styleSourceIndex s))) of
              Inl err \<Rightarrow> caught s err ''An unknown error occurred during compositing.''
            | Inr compositedImageUrl \<Rightarrow>
                (case dataURLtoFile compositedImageUrl (''composited-'' @ decimal now @ ''.png'') of
                   Inl err \<Rightarrow> caught s err ''An unknown error occurred during compositing.''
                 | Inr newImageFile \<Rightarrow>
                     s\<lparr> history := [newImageFile], historyIndex := 0, compositeFiles := [],
                        styleSourceIndex := 0, activeTool := retouch,
                        error := None, isLoading := False \<rparr>))
       \<and> (\<forall>ps. filesToParts env
                   (map Some (styleSourceFirst (compositeFiles s) (styleSourceIndex s))) = Inr ps \<longrightarrow>
             map Inr ps = map (fileToPart env)
                            (styleSourceFirst (compositeFiles s) (styleSourceIndex s))
             \<and> generateCompositedImage env
                   (map Some (styleSourceFirst (compositeFiles s) (styleSourceIndex s)))
                 = (case generateContent env (TextPart CompositeInstruction # ps) of
                      Inl e \<Rightarrow> Inl e
                    | Inr response \<Rightarrow> handleApiResponse response ''composite''))
       \<and> styleSourceFirst (compositeFiles s) (styleSourceIndex s) =
            compositeFiles s ! styleSourceIndex s
            # take (styleSourceIndex s) (compositeFiles s)
            @ drop (Suc (styleSourceIndex s)) (compositeFiles s)
       \<and> (compositeFiles s = [i0, i1, i2] \<and> styleSourceIndex s = 2 \<longrightarrow>
             styleSourceFirst (compositeFiles s) (styleSourceIndex s) = [i2, i0, i1])"
proof (intro conjI allI impI)
  have ordered: "orderedFiles (compositeFiles s) (styleSourceIndex s) =
      map Some (styleSourceFirst (compositeFiles s) (styleSourceIndex s))"
    using assms(1) by (rule orderedFiles_in_bounds)
  show "handleGenerateComposite env now s =
           (case generateCompositedImage env
                   (map Some (styleSourceFirst (compositeFiles s) (styleSourceIndex s))) of
              Inl err \<Rightarrow> caught s err ''An unknown error occurred during compositing.''
            | Inr compositedImageUrl \<Rightarrow>
                (case dataURLtoFile compositedImageUrl (''composited-'' @ decimal now @ ''.png'') of
                   Inl err \<Rightarrow> caught s err ''An unknown error occurred during compositing.''
                 | Inr newImageFile \<Rightarrow>
                     s\<lparr> history := [newImageFile], historyIndex := 0, compositeFiles := [],
                        styleSourceIndex := 0, activeTool := retouch,
                        error := None, isLoading := False \<rparr>))"
    using assms(2) by (simp add: handleGenerateComposite_def ordered)
next
  fix ps
  assume parts: "filesToParts env
      (map Some (styleSourceFirst (compositeFiles s) (styleSourceIndex s))) = Inr ps"
  then show "map Inr ps = map (fileToPart env)
      (styleSourceFirst (compositeFiles s) (styleSourceIndex s))"
    by (rule filesToParts_order)
  have "\<not> length (map Some (styleSourceFirst (compositeFiles s) (styleSourceIndex s))) < 2"
    using assms by (simp add: styleSourceFirst_length)
  with parts show "generateCompositedImage env
                   (map Some (styleSourceFirst (compositeFiles s) (styleSourceIndex s)))
                 = (case generateContent env (TextPart CompositeInstruction # ps) of
                      Inl e \<Rightarrow> Inl e
                    | Inr response \<Rightarrow> handleApiResponse response ''composite'')"
    by (simp add: generateCompositedImage_def)
next
  show "styleSourceFirst (compositeFiles s) (styleSourceIndex s) =
            compositeFiles s ! styleSourceIndex s
            # take (styleSourceIndex s) (compositeFiles s)
            @ drop (Suc (styleSourceIndex s)) (compositeFiles s)"
    by (simp add: styleSourceFirst_def)
next
  assume "compositeFiles s = [i0, i1, i2] \<and> styleSourceIndex s = 2"
  then show "styleSourceFirst (compositeFiles s) (styleSourceIndex s) = [i2, i0, i1]"
    by (simp add: styleSourceFirst_def)
qed

lemma compositeSession_eq:
  "compositeSession =
     (handleStartEditing initialState (sampleFile ''a''))
       \<lparr> activeTool := composite,
         compositeFiles := [sampleFile ''i0'', sampleFile ''i1'', sampleFile ''i2''],
         styleSourceIndex := 2 \<rparr>"
  by (simp add: compositeSession_def handleStartEditing_def handleCompositeFilesSelect_def
      initialState_def)

lemma compositeSession_reachable: "reachable compositeSession"
proof -
  have "reachable (foldl (step echoEnv 0) initialState
       [StartEditing (sampleFile ''a''), SetActiveTool composite,
        CompositeFilesSelect (Some [sampleFile ''i0'', sampleFile ''i1'', sampleFile ''i2'']),
        SetStyleSourceIndex 2])"
    unfolding foldl_Cons foldl_Nil by (intro reachable.intros)
  then show ?thesis by (simp only: compositeSession_def)
qed

lemma echo_fileToPart:
  "fileToPart echoEnv (sampleFile ''i0'') = Inr (InlineDataPart ''image/png'' ''i0'')"
  "fileToPart echoEnv (sampleFile ''i1'') = Inr (InlineDataPart ''image/png'' ''i1'')"
  "fileToPart echoEnv (sampleFile ''i2'') = Inr (InlineDataPart ''image/png'' ''i2'')"
  by (simp_all add: fileToPart_def echoEnv_def namingReader_def sampleFile_def
      line_terminator_def Let_def)

theorem composite_style_source_first_witness:
  "reachable compositeSession
   \<and> styleSourceIndex compositeSession < length (compositeFiles compositeSession)
   \<and> 2 \<le> length (compositeFiles compositeSession)
   \<and> styleSourceFirst (compositeFiles compositeSession) (styleSourceIndex compositeSession) =
        [sampleFile ''i2'', sampleFile ''i0'', sampleFile ''i1'']
   \<and> generateCompositedImage echoEnv
        [Some (sampleFile ''i2''), Some (sampleFile ''i0''), Some (sampleFile ''i1'')]
      = Inl (Error ''text,i2,i0,i1,'')
   \<and> error (handleGenerateComposite echoEnv 0 compositeSession) = Some ''text,i2,i0,i1,''
   \<and> history (handleGenerateComposite echoEnv 0 compositeSession) = [sampleFile ''a'']"
proof -
  have idx: "styleSourceIndex compositeSession < length (compositeFiles compositeSession)"
    and len: "2 \<le> length (compositeFiles compositeSession)"
    by (simp_all add: compositeSession_eq)
  have first: "styleSourceFirst (compositeFiles compositeSession)
      (styleSourceIndex compositeSession) =
        [sampleFile ''i2'', sampleFile ''i0'', sampleFile ''i1'']"
    by (simp add: compositeSession_eq styleSourceFirst_def)
  have call: "generateCompositedImage echoEnv
        [Some (sampleFile ''i2''), Some (sampleFile ''i0''), Some (sampleFile ''i1'')]
      = Inl (Error ''text,i2,i0,i1,'')"
    by (simp add: generateCompositedImage_def echo_fileToPart)
       (simp add: echoEnv_def)
  have hist: "history compositeSession = [sampleFile ''a'']"
    by (simp add: compositeSession_eq handleStartEditing_def)
  from composite_style_source_first [OF idx len, where env = echoEnv and now = 0, THEN conjunct1]
  have "handleGenerateComposite echoEnv 0 compositeSession =
      caught compositeSession (Error ''text,i2,i0,i1,'')
        ''An unknown error occurred during compositing.''"
    by (simp add: first call)
  then have "error (handleGenerateComposite echoEnv 0 compositeSession) = Some ''text,i2,i0,i1,''"
    and "history (handleGenerateComposite echoEnv 0 compositeSession) = [sampleFile ''a'']"
    by (simp_all add: caught_def errorMessage_def hist)
  with compositeSession_reachable idx len first call show ?thesis by simp
qed

section \<open>Pinning a frame style\<close>

text \<open>
  C9. With a style pinned, the panel shows the form as pinned exactly when the three
  fields of the form are equal, as strings, to the three fields of the pinned style.
  In that case the pin button unpins. Otherwise it pins the fields of the form in
  place of the pinned style, provided the style field is not blank; with a blank style
  field it leaves the pinned style as it is.
\<close>

theorem pin_toggles_on_exact_equality:
  "(isPinned (Some p) form \<longleftrightarrow>
      style form = style p \<and> topText form = topText p \<and> bottomText form = bottomText p)
   \<and> (isPinned (Some p) form \<longrightarrow> handlePin (Some p) form = None)
   \<and> (\<not> isPinned (Some p) form \<and> trim (style form) \<noteq> [] \<longrightarrow>
        handlePin (Some p) form = Some form)
   \<and> (\<not> isPinned (Some p) form \<and> trim (style form) = [] \<longrightarrow>
        handlePin (Some p) form = Some p)"
proof (intro conjI impI)
  show "isPinned (Some p) form \<longleftrightarrow>
      style form = style p \<and> topText form = topText p \<and> bottomText form = bottomText p"
    by (auto simp: isPinned_def)
  show "handlePin (Some p) form = None" if "isPinned (Some p) form"
    using that by (simp add: handlePin_def)
  show "handlePin (Some p) form = Some form"
    if "\<not> isPinned (Some p) form \<and> trim (style form) \<noteq> []"
    using that by (simp add: handlePin_def)
  show "handlePin (Some p) form = Some p"
    if "\<not> isPinned (Some p) form \<and> trim (style form) = []"
    using that by (simp add: handlePin_def)
qed

theorem pin_toggles_on_exact_equality_witness:
  "\<not> isPinned (Some \<lparr> style = ''gold'', topText = ''The Creator'', bottomText = [] \<rparr>)
        \<lparr> style = ''gold '', topText = ''The Creator'', bottomText = [] \<rparr>
   \<and> trim ''gold '' \<noteq> []
   \<and> handlePin (Some \<lparr> style = ''gold'', topText = ''The Creator'', bottomText = [] \<rparr>)
        \<lparr> style = ''gold '', topText = ''The Creator'', bottomText = [] \<rparr>
      = Some \<lparr> style = ''gold '', topText = ''The Creator'', bottomText = [] \<rparr>
   \<and> isPinned (Some \<lparr> style = ''gold'', topText = ''The Creator'', bottomText = [] \<rparr>)
        \<lparr> style = ''gold'', topText = ''The Creator'', bottomText = [] \<rparr>
   \<and> handlePin (Some \<lparr> style = ''gold'', topText = ''The Creator'', bottomText = [] \<rparr>)
        \<lparr> style = ''gold'', topText = ''The Creator'', bottomText = [] \<rparr> = None"
  using pin_toggles_on_exact_equality
    [of "\<lparr> style = ''gold'', topText = ''The Creator'', bottomText = [] \<rparr>"
        "\<lparr> style = ''gold '', topText = ''The Creator'', bottomText = [] \<rparr>"]
    pin_toggles_on_exact_equality
    [of "\<lparr> style = ''gold'', topText = ''The Creator'', bottomText = [] \<rparr>"
        "\<lparr> style = ''gold'', topText = ''The Creator'', bottomText = [] \<rparr>"]
  by (simp add: trim_def js_whitespace_def)

section \<open>Hotspot lists\<close>

lemma addImageToHistory_hotspots [simp]:
  "editHotspots (addImageToHistory s f) = editHotspots s"
  "displayHotspots (addImageToHistory s f) = displayHotspots s"
  by (simp_all add: addImageToHistory_def Let_def)

lemma caught_hotspots [simp]:
  "editHotspots (caught s e m) = editHotspots s"
  "displayHotspots (caught s e m) = displayHotspots s"
  by (simp_all add: caught_def)

lemma slice0_length: "length (slice0 xs (- 1)) = length xs - 1"
  by (simp add: slice0_def Let_def)

lemma step_keeps_hotspots_paired:
  assumes "length (editHotspots s) = length (displayHotspots s)"
  shows "length (editHotspots (step env now s ev)) = length (displayHotspots (step env now s ev))"
proof (cases ev)
  case (DownloadSelected z)
  then show ?thesis using assms
    by (simp add: downloadSelected_def handleDownloadZip_def caught_def
        split: option.splits sum.splits)
next
  case (DownloadHistory z)
  then show ?thesis using assms
    by (simp add: downloadHistory_def handleDownloadZip_def caught_def
        split: option.splits sum.splits)
next
  case ApplyFrameToBatch
  then show ?thesis using assms
    by (simp add: handleApplyFrameToBatch_def split: option.splits prod.splits)
qed (use assms in \<open>simp_all add: handleStartEditing_def handleCompositeFilesSelect_def
      handleBatchFilesSelect_def handleGenerate_def handleGenerateComposite_def
      handleApplyCreativeStyle_def handleApplyAdjustment_def handleReplaceObject_def
      handleApplyFrame_def handleApplyCrop_def handleUndo_def
      handleRedo_def handleReset_def handleUploadNew_def thumbnailClick_def
      handleToggleSelection_def handleImageClick_def handleUndoHotspot_def slice0_length Let_def
      split: option.splits sum.splits CropSurface.splits\<close>)

text \<open>
  C10. In every state a session can reach, the list of hotspots in natural resolution
  and the list of hotspots on screen have the same length.
\<close>

theorem hotspot_lists_same_length:
  "reachable s \<Longrightarrow> length (editHotspots s) = length (displayHotspots s)"
proof (induction rule: reachable.induct)
  case reachable_initial
  show ?case by (simp add: initialState_def)
next
  case (reachable_step s env now ev)
  then show ?case by (simp add: step_keeps_hotspots_paired)
qed

theorem hotspot_lists_same_length_witness:
  "reachable (step sampleEnv 0 (step sampleEnv 0 initialState (StartEditing (sampleFile ''a'')))
                (ImageClick exactDoubles sampleClick))
   \<and> editHotspots (step sampleEnv 0 (step sampleEnv 0 initialState (StartEditing (sampleFile ''a'')))
                (ImageClick exactDoubles sampleClick)) = [\<lparr> point_x = 40, point_y = 80 \<rparr>]
   \<and> length (displayHotspots (step sampleEnv 0
        (step sampleEnv 0 initialState (StartEditing (sampleFile ''a''))) (ImageClick exactDoubles sampleClick))) = 1"
proof -
  have r: "reachable (step sampleEnv 0
      (step sampleEnv 0 initialState (StartEditing (sampleFile ''a''))) (ImageClick exactDoubles sampleClick))"
    by (intro reachable.intros)
  have e: "editHotspots (step sampleEnv 0
      (step sampleEnv 0 initialState (StartEditing (sampleFile ''a''))) (ImageClick exactDoubles sampleClick))
      = [\<lparr> point_x = 40, point_y = 80 \<rparr>]"
    by (simp add: handleStartEditing_def handleImageClick_def initialState_def sampleClick_def
        exactDoubles_def math_round_def Let_def)
  from hotspot_lists_same_length [OF r] r e show ?thesis by simp
qed

section \<open>Sample sessions\<close>

lemma reachable_foldl: "reachable s \<Longrightarrow> reachable (foldl (step env now) s evs)"
  by (induction evs arbitrary: s) (simp_all add: reachable_step)

lemma sampleSession_reachable: "reachable sampleSession"
  unfolding sampleSession_def by (rule reachable_foldl) (rule reachable_initial)

lemma sampleSession_eq:
  "sampleSession =
     \<lparr> history = [sampleFile ''a''], historyIndex = 0, prompt = ''make it blue'',
       secondaryPrompt = [], isLoading = False, error = None,
       editHotspots = [\<lparr> point_x = 40, point_y = 80 \<rparr>], displayHotspots = [(20, 40)],
       activeTool = creative, crop = None, completedCrop = None,
       compositeFiles = [sampleFile ''i0'', sampleFile ''i1''], styleSourceIndex = 0,
       batchFiles = [], pinnedFrameStyle = None, selectedIndices = [] \<rparr>"
  by (simp add: sampleSession_def handleStartEditing_def handleImageClick_def initialState_def
      sampleClick_def exactDoubles_def math_round_def handleCompositeFilesSelect_def Let_def)

lemma sampleSession_current: "currentImage sampleSession = Some (sampleFile ''a'')"
  by (simp add: sampleSession_eq currentImage_def)

lemma sample_fileToPart:
  "fileToPart sampleEnv (sampleFile n) = Inr (InlineDataPart ''image/png'' ''QUJD'')"
  "fileToPart offlineEnv (sampleFile n) = Inr (InlineDataPart ''image/png'' ''QUJD'')"
  by (simp_all add: fileToPart_def sampleEnv_def offlineEnv_def sampleReader_def sampleFile_def
      line_terminator_def Let_def)

lemma sampleResponse_image:
  "handleApiResponse sampleResponse ctx = Inr ''data:image/png;base64,QUJD''"
  by (simp add: sampleResponse_def handleApiResponse_def response_blockReason_def truthy_def
      template_def imagePartFromResponse_def firstCandidate_def)

lemma sample_send:
  "sendImageAndText sampleEnv (sampleFile n) instruction ctx = Inr ''data:image/png;base64,QUJD''"
  "sendImageAndText offlineEnv (sampleFile n) instruction ctx = Inl (Error ''Failed to fetch'')"
  by (simp_all add: sendImageAndText_def sample_fileToPart sampleResponse_image)
     (simp_all add: sampleEnv_def offlineEnv_def sampleResponse_image)

lemma sample_decode:
  "dataURLtoFile ''data:image/png;base64,QUJD'' n =
     Inr \<lparr> file_name = n, file_type = ''image/png'', file_bytes = [65, 66, 67] \<rparr>"
  by (simp add: dataURLtoFile_def atob_def strip_padding_def ascii_whitespace_def
      base64_value_def line_terminator_def newFile_def blobType_def ascii_lowercase_def Let_def)

section \<open>Classification of responses\<close>

text \<open>
  What the optional chains of \<open>handleApiResponse\<close> find: no image part means that the
  first candidate, if it has parts, has none with inline data; an image part is the
  first part of the first candidate that has inline data.
\<close>

lemma not_blocked_iff:
  "\<not> truthy (response_blockReason r) \<longleftrightarrow>
     (\<forall>pf. promptFeedback r = Some pf \<longrightarrow> blockReason pf = None \<or> blockReason pf = Some [])"
  by (auto simp: response_blockReason_def truthy_def split: option.splits)

lemma imagePart_none_iff:
  "imagePartFromResponse r = None \<longleftrightarrow>
     (\<forall>c cs ct ps. candidates r = Some (c # cs) \<and> content c = Some ct \<and> parts ct = Some ps
        \<longrightarrow> (\<forall>part \<in> set ps. inlineData part = None))"
  by (auto simp: imagePartFromResponse_def firstCandidate_def find_None_iff
      split: option.splits list.splits)

lemma imagePart_some_iff:
  "imagePartFromResponse r = Some part \<longleftrightarrow>
     (\<exists>c cs ct ps i. candidates r = Some (c # cs) \<and> content c = Some ct \<and> parts ct = Some ps
        \<and> i < length ps \<and> ps ! i = part \<and> inlineData part \<noteq> None
        \<and> (\<forall>j < i. inlineData (ps ! j) = None))"
  by (auto simp: imagePartFromResponse_def firstCandidate_def find_Some_iff
      split: option.splits list.splits)



section \<open>Failed edits\<close>

text \<open>A failure of the remote call is a failure of the operation of the gateway.\<close>

lemma sendImageAndText_remote_failure:
  "fileToPart env img = Inr part \<Longrightarrow> generateContent env [part, TextPart instruction] = Inl e \<Longrightarrow>
     sendImageAndText env img instruction ctx = Inl e"
  by (simp add: sendImageAndText_def)

text \<open>
  C3. When the call of the gateway fails, each of the handlers of the localized edit,
  the filter, the adjustment, the frame and the composite leaves the history and the
  cursor as they were.
\<close>

theorem failed_edit_keeps_history:
  "(\<forall>img e. currentImage s = Some img
        \<and> generateEditedImage env img (prompt s) (editHotspots s) = Inl e \<longrightarrow>
      history (handleGenerate env now s) = history s
      \<and> historyIndex (handleGenerate env now s) = historyIndex s)
   \<and> (\<forall>img e. currentImage s = Some img \<and> generateFilteredImage env img p = Inl e \<longrightarrow>
      history (handleApplyCreativeStyle env now s p) = history s
      \<and> historyIndex (handleApplyCreativeStyle env now s p) = historyIndex s)
   \<and> (\<forall>img e. currentImage s = Some img \<and> generateAdjustedImage env img p = Inl e \<longrightarrow>
      history (handleApplyAdjustment env now s p) = history s
      \<and> historyIndex (handleApplyAdjustment env now s p) = historyIndex s)
   \<and> (\<forall>img e. currentImage s = Some img
        \<and> generateFramedImage env img (style d) (topText d) (bottomText d) = Inl e \<longrightarrow>
      history (handleApplyFrame env now s d) = history s
      \<and> historyIndex (handleApplyFrame env now s d) = historyIndex s)
   \<and> (\<forall>e. generateCompositedImage env (orderedFiles (compositeFiles s) (styleSourceIndex s))
          = Inl e \<longrightarrow>
      history (handleGenerateComposite env now s) = history s
      \<and> historyIndex (handleGenerateComposite env now s) = historyIndex s)"
proof (intro conjI allI impI)
  fix img e
  assume "currentImage s = Some img
    \<and> generateEditedImage env img (prompt s) (editHotspots s) = Inl e"
  then show "history (handleGenerate env now s) = history s"
    and "historyIndex (handleGenerate env now s) = historyIndex s"
    by (simp_all add: handleGenerate_def)
next
  fix img e
  assume "currentImage s = Some img \<and> generateFilteredImage env img p = Inl e"
  then show "history (handleApplyCreativeStyle env now s p) = history s"
    and "historyIndex (handleApplyCreativeStyle env now s p) = historyIndex s"
    by (simp_all add: handleApplyCreativeStyle_def)
next
  fix img e
  assume "currentImage s = Some img \<and> generateAdjustedImage env img p = Inl e"
  then show "history (handleApplyAdjustment env now s p) = history s"
    and "historyIndex (handleApplyAdjustment env now s p) = historyIndex s"
    by (simp_all add: handleApplyAdjustment_def)
next
  fix img e
  assume "currentImage s = Some img
        \<and> generateFramedImage env img (style d) (topText d) (bottomText d) = Inl e"
  then show "history (handleApplyFrame env now s d) = history s"
    and "historyIndex (handleApplyFrame env now s d) = historyIndex s"
    by (simp_all add: handleApplyFrame_def)
next
  fix e
  assume "generateCompositedImage env (orderedFiles (compositeFiles s) (styleSourceIndex s))
    = Inl e"
  then show "history (handleGenerateComposite env now s) = history s"
    and "historyIndex (handleGenerateComposite env now s) = historyIndex s"
    by (simp_all add: handleGenerateComposite_def)
qed

theorem failed_edit_keeps_history_witness:
  "currentImage sampleSession = Some (sampleFile ''a'')
   \<and> generateEditedImage offlineEnv (sampleFile ''a'') (prompt sampleSession)
        (editHotspots sampleSession) = Inl (Error ''Failed to fetch'')
   \<and> history (handleGenerate offlineEnv 0 sampleSession) = [sampleFile ''a'']
   \<and> historyIndex (handleGenerate offlineEnv 0 sampleSession) = 0
   \<and> generateFilteredImage offlineEnv (sampleFile ''a'') ''vivid'' = Inl (Error ''Failed to fetch'')
   \<and> history (handleApplyCreativeStyle offlineEnv 0 sampleSession ''vivid'') = [sampleFile ''a'']
   \<and> generateAdjustedImage offlineEnv (sampleFile ''a'') ''vivid'' = Inl (Error ''Failed to fetch'')
   \<and> history (handleApplyAdjustment offlineEnv 0 sampleSession ''vivid'') = [sampleFile ''a'']
   \<and> generateFramedImage offlineEnv (sampleFile ''a'') ''gold'' ''The Creator'' []
        = Inl (Error ''Failed to fetch'')
   \<and> history (handleApplyFrame offlineEnv 0 sampleSession
        \<lparr> style = ''gold'', topText = ''The Creator'', bottomText = [] \<rparr>) = [sampleFile ''a'']
   \<and> generateCompositedImage offlineEnv
        (orderedFiles (compositeFiles sampleSession) (styleSourceIndex sampleSession))
        = Inl (Error ''Failed to fetch'')
   \<and> history (handleGenerateComposite offlineEnv 0 sampleSession) = [sampleFile ''a'']
   \<and> historyIndex (handleGenerateComposite offlineEnv 0 sampleSession) = 0"
proof -
  have gens:
    "generateEditedImage offlineEnv (sampleFile ''a'') (prompt sampleSession)
        (editHotspots sampleSession) = Inl (Error ''Failed to fetch'')"
    "generateFilteredImage offlineEnv (sampleFile ''a'') ''vivid'' = Inl (Error ''Failed to fetch'')"
    "generateAdjustedImage offlineEnv (sampleFile ''a'') ''vivid'' = Inl (Error ''Failed to fetch'')"
    "generateFramedImage offlineEnv (sampleFile ''a'') ''gold'' ''The Creator'' []
        = Inl (Error ''Failed to fetch'')"
    by (simp_all add: generateEditedImage_def generateFilteredImage_def generateAdjustedImage_def
        generateFramedImage_def sample_send)
  have comp: "generateCompositedImage offlineEnv
        (orderedFiles (compositeFiles sampleSession) (styleSourceIndex sampleSession))
        = Inl (Error ''Failed to fetch'')"
    by (simp add: sampleSession_eq orderedFiles_def generateCompositedImage_def sample_fileToPart
        Let_def) (simp add: offlineEnv_def)
  have hist: "history sampleSession = [sampleFile ''a'']" "historyIndex sampleSession = 0"
    by (simp_all add: sampleSession_eq)
  from failed_edit_keeps_history
         [where s = sampleSession and env = offlineEnv and now = 0 and p = "''vivid''"
            and d = "\<lparr> style = ''gold'', topText = ''The Creator'', bottomText = [] \<rparr>"]
       sampleSession_current gens comp hist
  show ?thesis by simp
qed

section \<open>Batch application of a pinned style\<close>

text \<open>
  The shape of every run of the loop: the gateway is called for a prefix of the files,
  the whole list when nothing is thrown; each call but a failing last one adds one
  result, and the results present at the start stay in front.
\<close>

lemma batchLoop_shape:
  "batchLoop env p files results = (results', attempted, thrown) \<Longrightarrow>
     \<exists>k \<le> length files. attempted = take k files
        \<and> (case thrown of None \<Rightarrow> k = length files \<and> length results' = length results + k
            | Some e \<Rightarrow> 0 < k \<and> length results' = length results + k - 1)
        \<and> take (length results) results' = results"
proof (induction files arbitrary: results results' attempted thrown)
  case Nil
  then show ?case by auto
next
  case (Cons x xs)
  show ?case
  proof (cases "generateFramedImage env x (style p) (topText p) (bottomText p)")
    case (Inl e)
    with Cons.prems have "results' = results" "attempted = [x]" "thrown = Some e" by simp_all
    then show ?thesis by (intro exI [of _ 1]) simp
  next
    case (Inr url)
    show ?thesis
    proof (cases "dataURLtoFile url (''framed-batch-'' @ file_name x @ ''.png'')")
      case (Inl e)
      with Inr Cons.prems have "results' = results" "attempted = [x]" "thrown = Some e"
        by simp_all
      then show ?thesis by (intro exI [of _ 1]) simp
    next
      case (Inr f)
      obtain rs att thr where rest: "batchLoop env p xs (results @ [f]) = (rs, att, thr)"
        by (cases "batchLoop env p xs (results @ [f])") auto
      with \<open>generateFramedImage env x (style p) (topText p) (bottomText p) = Inr url\<close> Inr Cons.prems
      have eqs: "results' = rs" "attempted = x # att" "thrown = thr" by simp_all
      from Cons.IH [OF rest] obtain k where k: "k \<le> length xs" "att = take k xs"
        "(case thr of None \<Rightarrow> k = length xs \<and> length rs = length (results @ [f]) + k
            | Some e \<Rightarrow> 0 < k \<and> length rs = length (results @ [f]) + k - 1)"
        "take (length (results @ [f])) rs = results @ [f]"
        by blast
      from k(4) have "take (length results) rs = results"
        by (metis append_eq_conv_conj take_take length_append le_add1 min_def)
      with k eqs show ?thesis
        by (intro exI [of _ "Suc k"]) (auto split: option.splits)
    qed
  qed
qed

text \<open>
  C4. With a pinned style and the batch sources \<open>[s1, s2, s3]\<close>, when the frame call
  succeeds for \<open>s1\<close> and fails for \<open>s2\<close>, the loop calls the gateway for \<open>s1\<close> and \<open>s2\<close>
  only, the error is reported, and the history becomes the one result of \<open>s1\<close>, with
  the cursor on it.
\<close>

theorem batch_stops_at_first_failure:
  assumes "pinnedFrameStyle s = Some p"
    and "batchFiles s = [s1, s2, s3]"
    and "generateFramedImage env s1 (style p) (topText p) (bottomText p) = Inr url1"
    and "dataURLtoFile url1 (''framed-batch-'' @ file_name s1 @ ''.png'') = Inr r1"
    and "generateFramedImage env s2 (style p) (topText p) (bottomText p) = Inl e"
  shows "batchLoop env p (batchFiles s) [] = ([r1], [s1, s2], Some e)
       \<and> error (handleApplyFrameToBatch env s) = Some (errorMessage e batchMessage)
       \<and> history (handleApplyFrameToBatch env s) = [r1]
       \<and> historyIndex (handleApplyFrameToBatch env s) = 0"
proof -
  have loop: "batchLoop env p (batchFiles s) [] = ([r1], [s1, s2], Some e)"
    using assms by simp
  then show ?thesis
    using assms(1,2) by (simp add: handleApplyFrameToBatch_def caught_def batchMessage_def)
qed

lemma batchSession_eq:
  "batchSession = initialState
     \<lparr> activeTool := batch,
       batchFiles := [sampleFile ''s1'', sampleFile ''s2'', sampleFile ''s3''],
       pinnedFrameStyle := Some \<lparr> style = ''gold'', topText = ''The Creator'', bottomText = [] \<rparr> \<rparr>"
  by (simp add: batchSession_def handlePin_def isPinned_def trim_def js_whitespace_def
      handleStartEditing_def handleBatchFilesSelect_def initialState_def)

lemma batchSession_reachable: "reachable batchSession"
  unfolding batchSession_def by (rule reachable_foldl) (rule reachable_initial)

lemma flaky_frames:
  "generateFramedImage flakyEnv (sampleFile ''s1'') ''gold'' ''The Creator'' []
     = Inr ''data:image/png;base64,QUJD''"
  "generateFramedImage flakyEnv (sampleFile ''s2'') ''gold'' ''The Creator'' []
     = Inl (Error ''Failed to fetch'')"
  by (simp_all add: generateFramedImage_def sendImageAndText_def fileToPart_def flakyEnv_def
      namingReader_def sampleFile_def sampleResponse_image line_terminator_def Let_def)

theorem batch_stops_at_first_failure_witness:
  "reachable batchSession
   \<and> pinnedFrameStyle batchSession =
     Some \<lparr> style = ''gold'', topText = ''The Creator'', bottomText = [] \<rparr>
   \<and> batchFiles batchSession = [sampleFile ''s1'', sampleFile ''s2'', sampleFile ''s3'']
   \<and> generateFramedImage flakyEnv (sampleFile ''s1'') ''gold'' ''The Creator'' []
        = Inr ''data:image/png;base64,QUJD''
   \<and> generateFramedImage flakyEnv (sampleFile ''s2'') ''gold'' ''The Creator'' []
        = Inl (Error ''Failed to fetch'')
   \<and> batchLoop flakyEnv \<lparr> style = ''gold'', topText = ''The Creator'', bottomText = [] \<rparr>
        (batchFiles batchSession) []
      = ([\<lparr> file_name = ''framed-batch-s1.png'', file_type = ''image/png'',
            file_bytes = [65, 66, 67] \<rparr>],
         [sampleFile ''s1'', sampleFile ''s2''], Some (Error ''Failed to fetch''))
   \<and> error (handleApplyFrameToBatch flakyEnv batchSession) = Some ''Failed to fetch''
   \<and> history (handleApplyFrameToBatch flakyEnv batchSession)
      = [\<lparr> file_name = ''framed-batch-s1.png'', file_type = ''image/png'',
           file_bytes = [65, 66, 67] \<rparr>]
   \<and> historyIndex (handleApplyFrameToBatch flakyEnv batchSession) = 0"
proof -
  have pinned: "pinnedFrameStyle batchSession =
     Some \<lparr> style = ''gold'', topText = ''The Creator'', bottomText = [] \<rparr>"
    and files: "batchFiles batchSession = [sampleFile ''s1'', sampleFile ''s2'', sampleFile ''s3'']"
    by (simp_all add: batchSession_eq)
  have first: "generateFramedImage flakyEnv (sampleFile ''s1'')
      (style \<lparr> style = ''gold'', topText = ''The Creator'', bottomText = [] \<rparr>)
      (topText \<lparr> style = ''gold'', topText = ''The Creator'', bottomText = [] \<rparr>)
      (bottomText \<lparr> style = ''gold'', topText = ''The Creator'', bottomText = [] \<rparr>)
      = Inr ''data:image/png;base64,QUJD''"
    and second: "generateFramedImage flakyEnv (sampleFile ''s2'')
      (style \<lparr> style = ''gold'', topText = ''The Creator'', bottomText = [] \<rparr>)
      (topText \<lparr> style = ''gold'', topText = ''The Creator'', bottomText = [] \<rparr>)
      (bottomText \<lparr> style = ''gold'', topText = ''The Creator'', bottomText = [] \<rparr>)
      = Inl (Error ''Failed to fetch'')"
    by (simp_all add: flaky_frames)
  have decoded: "dataURLtoFile ''data:image/png;base64,QUJD''
      (''framed-batch-'' @ file_name (sampleFile ''s1'') @ ''.png'')
      = Inr \<lparr> file_name = ''framed-batch-s1.png'', file_type = ''image/png'',
              file_bytes = [65, 66, 67] \<rparr>"
    by (simp add: sample_decode sampleFile_def)
  from batch_stops_at_first_failure [OF pinned files first decoded second]
       pinned files flaky_frames batchSession_reachable
  show ?thesis by (simp add: errorMessage_def)
qed

section \<open>Clearing the hotspots\<close>

text \<open>
  The edits other than the localized one never set the list of edit hotspots.
\<close>

lemma other_edits_keep_hotspots:
  "editHotspots (handleApplyCreativeStyle env now s p) = editHotspots s"
  "editHotspots (handleApplyAdjustment env now s p) = editHotspots s"
  "editHotspots (handleReplaceObject env now s) = editHotspots s"
  "editHotspots (handleApplyFrame env now s d) = editHotspots s"
  "editHotspots (handleApplyCrop surface now s) = editHotspots s"
  "editHotspots (handleGenerateComposite env now s) = editHotspots s"
  by (simp_all add: handleApplyCreativeStyle_def handleApplyAdjustment_def
      handleReplaceObject_def handleApplyFrame_def handleApplyCrop_def
      handleGenerateComposite_def split: option.splits sum.splits CropSurface.splits)

text \<open>
  In a session with one hotspot set, a filter is applied with success: the result is
  appended to the history, and the hotspot is still there.
\<close>

theorem filter_keeps_hotspots_counterexample:
  "reachable sampleSession
   \<and> history (handleApplyCreativeStyle sampleEnv 0 sampleSession ''vivid'') =
       [sampleFile ''a'',
        \<lparr> file_name = ''styled-0.png'', file_type = ''image/png'', file_bytes = [65, 66, 67] \<rparr>]
   \<and> historyIndex (handleApplyCreativeStyle sampleEnv 0 sampleSession ''vivid'') = 1
   \<and> error (handleApplyCreativeStyle sampleEnv 0 sampleSession ''vivid'') = None
   \<and> editHotspots (handleApplyCreativeStyle sampleEnv 0 sampleSession ''vivid'') =
       [\<lparr> point_x = 40, point_y = 80 \<rparr>]"
proof -
  have "generateFilteredImage sampleEnv (sampleFile ''a'') ''vivid''
      = Inr ''data:image/png;base64,QUJD''"
    by (simp add: generateFilteredImage_def sample_send)
  moreover have "decimal 0 = ''0''"
    by (simp add: decimal.simps)
  ultimately show ?thesis
    using sampleSession_reachable
    by (simp add: handleApplyCreativeStyle_def sampleSession_current sample_decode)
       (simp add: sampleSession_eq addImageToHistory_def slice0_def Let_def)
qed

text \<open>
  C7, as far as the program goes. The list of edit hotspots is empty after a
  successful localized edit, that is, when the gateway returns a data URL that decodes
  to the file appended to the history, and after an undo or a redo that moves the
  cursor.
\<close>

theorem hotspots_cleared_by_localized_edit_and_navigation:
  "(\<forall>img url f. currentImage s = Some img \<and> trim (prompt s) \<noteq> [] \<and> editHotspots s \<noteq> []
        \<and> generateEditedImage env img (prompt s) (editHotspots s) = Inr url
        \<and> dataURLtoFile url (''edited-'' @ decimal now @ ''.png'') = Inr f \<longrightarrow>
      last (history (handleGenerate env now s)) = f
      \<and> editHotspots (handleGenerate env now s) = [])
   \<and> (canUndo s \<longrightarrow>
        historyIndex (handleUndo s) = historyIndex s - 1 \<and> editHotspots (handleUndo s) = [])
   \<and> (canRedo s \<longrightarrow>
        historyIndex (handleRedo s) = historyIndex s + 1 \<and> editHotspots (handleRedo s) = [])"
proof (intro conjI allI impI)
  fix img url f
  assume "currentImage s = Some img \<and> trim (prompt s) \<noteq> [] \<and> editHotspots s \<noteq> []
        \<and> generateEditedImage env img (prompt s) (editHotspots s) = Inr url
        \<and> dataURLtoFile url (''edited-'' @ decimal now @ ''.png'') = Inr f"
  then show "last (history (handleGenerate env now s)) = f"
    and "editHotspots (handleGenerate env now s) = []"
    by (simp_all add: handleGenerate_def addImageToHistory_def Let_def)
next
  assume "canUndo s"
  then show "historyIndex (handleUndo s) = historyIndex s - 1"
    and "editHotspots (handleUndo s) = []"
    by (simp_all add: handleUndo_def)
next
  assume "canRedo s"
  then show "historyIndex (handleRedo s) = historyIndex s + 1"
    and "editHotspots (handleRedo s) = []"
    by (simp_all add: handleRedo_def)
qed

theorem hotspots_cleared_witness:
  "currentImage sampleSession = Some (sampleFile ''a'')
   \<and> trim (prompt sampleSession) \<noteq> [] \<and> editHotspots sampleSession \<noteq> []
   \<and> generateEditedImage sampleEnv (sampleFile ''a'') (prompt sampleSession)
        (editHotspots sampleSession) = Inr ''data:image/png;base64,QUJD''
   \<and> dataURLtoFile ''data:image/png;base64,QUJD'' (''edited-'' @ decimal 0 @ ''.png'')
       = Inr \<lparr> file_name = ''edited-0.png'', file_type = ''image/png'', file_bytes = [65, 66, 67] \<rparr>
   \<and> last (history (handleGenerate sampleEnv 0 sampleSession)) =
        \<lparr> file_name = ''edited-0.png'', file_type = ''image/png'', file_bytes = [65, 66, 67] \<rparr>
   \<and> editHotspots (handleGenerate sampleEnv 0 sampleSession) = []
   \<and> canUndo (handleGenerate sampleEnv 0 sampleSession)
   \<and> historyIndex (handleUndo (handleGenerate sampleEnv 0 sampleSession)) = 0
   \<and> editHotspots (handleUndo (handleGenerate sampleEnv 0 sampleSession)) = []"
proof -
  have cur: "currentImage sampleSession = Some (sampleFile ''a'')"
    by (rule sampleSession_current)
  have pr: "trim (prompt sampleSession) \<noteq> []" "editHotspots sampleSession \<noteq> []"
    by (simp_all add: sampleSession_eq trim_def js_whitespace_def)
  have gen: "generateEditedImage sampleEnv (sampleFile ''a'') (prompt sampleSession)
      (editHotspots sampleSession) = Inr ''data:image/png;base64,QUJD''"
    by (simp add: generateEditedImage_def sample_send)
  have dec: "dataURLtoFile ''data:image/png;base64,QUJD'' (''edited-'' @ decimal 0 @ ''.png'')
       = Inr \<lparr> file_name = ''edited-0.png'', file_type = ''image/png'', file_bytes = [65, 66, 67] \<rparr>"
    by (simp add: sample_decode decimal.simps)
  have undo: "canUndo (handleGenerate sampleEnv 0 sampleSession)"
    and idx: "historyIndex (handleGenerate sampleEnv 0 sampleSession) = 1"
    using cur pr gen dec
    by (simp_all add: handleGenerate_def canUndo_def addImageToHistory_def slice0_def Let_def)
       (simp_all add: sampleSession_eq)
  from hotspots_cleared_by_localized_edit_and_navigation
         [where s = sampleSession and env = sampleEnv and now = 0]
       hotspots_cleared_by_localized_edit_and_navigation
         [where s = "handleGenerate sampleEnv 0 sampleSession"]
       cur pr gen dec undo idx
  show ?thesis by simp
qed

section \<open>Decoding a data URL\<close>

lemma split_comma_not_Nil [simp]: "split_comma u \<noteq> []"
  by (induction u) (auto split: list.splits)

lemma split_comma_first: "split_comma u ! 0 = before_comma u"
  by (induction u) (auto simp: before_comma_def split: list.splits)

lemma split_comma_length: "length (split_comma u) < 2 \<longleftrightarrow> CHR '','' \<notin> set u"
  by (induction u) (auto split: list.splits)

lemma split_comma_second:
  "CHR '','' \<in> set u \<Longrightarrow> split_comma u ! 1 = before_comma (after_comma u)"
proof (induction u)
  case Nil
  then show ?case by simp
next
  case (Cons ch cs)
  show ?case
  proof (cases "ch = CHR '',''")
    case True
    then show ?thesis
      using split_comma_first [of cs] by (simp add: after_comma_def)
  next
    case False
    with Cons have "split_comma cs ! 1 = before_comma (after_comma cs)" by simp
    with False show ?thesis
      by (cases "split_comma cs") (simp_all add: after_comma_def)
  qed
qed

text \<open>
  What a match of the regular expression means: the segment holds a colon, then the
  captured text, free of semicolons and line terminators, then a semicolon.
\<close>

lemma lazy_until_semicolon_Some:
  "lazy_until_semicolon cs = Some m \<Longrightarrow>
     \<exists>post. cs = m @ CHR '';'' # post \<and> CHR '';'' \<notin> set m
        \<and> (\<forall>ch \<in> set m. \<not> line_terminator ch)"
  by (induction cs arbitrary: m) (auto split: if_splits)

lemma mimeMatch_Some:
  "mimeMatch seg = Some m \<Longrightarrow>
     \<exists>pre post. seg = pre @ CHR '':'' # m @ CHR '';'' # post
        \<and> CHR '';'' \<notin> set m \<and> (\<forall>ch \<in> set m. \<not> line_terminator ch)"
proof (induction seg)
  case Nil
  then show ?case by simp
next
  case (Cons ch cs)
  show ?case
  proof (cases "ch = CHR '':'' \<and> lazy_until_semicolon cs = Some m")
    case True
    then obtain post where "cs = m @ CHR '';'' # post" "CHR '';'' \<notin> set m"
      "\<forall>ch \<in> set m. \<not> line_terminator ch"
      using lazy_until_semicolon_Some by blast
    with True have "ch # cs = [] @ CHR '':'' # m @ CHR '';'' # post" by simp
    then show ?thesis
      using \<open>CHR '';'' \<notin> set m\<close> \<open>\<forall>ch \<in> set m. \<not> line_terminator ch\<close> by blast
  next
    case False
    with Cons.prems have "mimeMatch cs = Some m"
      by (auto split: if_splits option.splits)
    then obtain pre post where "cs = pre @ CHR '':'' # m @ CHR '';'' # post"
      "CHR '';'' \<notin> set m" "\<forall>ch \<in> set m. \<not> line_terminator ch"
      using Cons.IH by blast
    then have "ch # cs = (ch # pre) @ CHR '':'' # m @ CHR '';'' # post" by simp
    then show ?thesis
      using \<open>CHR '';'' \<notin> set m\<close> \<open>\<forall>ch \<in> set m. \<not> line_terminator ch\<close> by blast
  qed
qed

text \<open>
  The type a file is constructed with: the given type in lower case when all its
  characters are from U+0020 to U+007E, the empty string otherwise; so a type of such
  characters without upper-case letters is kept.
\<close>

lemma ascii_lowercase_fixed:
  "ch \<notin> set ''ABCDEFGHIJKLMNOPQRSTUVWXYZ'' \<Longrightarrow> ascii_lowercase ch = ch"
  by (simp add: ascii_lowercase_def)

lemma blobType_kept:
  assumes "\<forall>ch \<in> set t. 32 \<le> (of_char ch :: nat) \<and> (of_char ch :: nat) \<le> 126"
    and "\<forall>ch \<in> set t. ch \<notin> set ''ABCDEFGHIJKLMNOPQRSTUVWXYZ''"
  shows "blobType t = t"
proof -
  have "\<not> (\<exists>ch \<in> set t. (of_char ch :: nat) < 32 \<or> 126 < (of_char ch :: nat))"
    using assms(1) by (simp add: not_less)
  moreover have "map ascii_lowercase t = t"
    using assms(2) by (simp add: ascii_lowercase_fixed map_idI)
  ultimately show ?thesis
    by (simp only: blobType_def if_False)
qed

lemma blobType_length: "blobType t = [] \<or> length (blobType t) = length t"
  by (simp add: blobType_def)

text \<open>
  The data URL that the gateway builds from an image part decodes to a file with the
  bytes of that part and its MIME type as the constructor stores it, when the MIME
  type is not empty and has no comma, semicolon or line terminator, and the data are
  base64 without a comma.
\<close>

lemma lazy_until_semicolon_append:
  "CHR '';'' \<notin> set m \<Longrightarrow> \<forall>ch \<in> set m. \<not> line_terminator ch \<Longrightarrow>
     lazy_until_semicolon (m @ CHR '';'' # post) = Some m"
  by (induction m) auto

lemma decode_of_response_url:
  assumes "mime \<noteq> []"
    and "CHR '','' \<notin> set mime" and "CHR '';'' \<notin> set mime"
    and "\<forall>ch \<in> set mime. \<not> line_terminator ch"
    and "CHR '','' \<notin> set payload"
    and "atob payload = Some bytes"
  shows "dataURLtoFile (''data:'' @ mime @ '';base64,'' @ payload) filename =
           Inr \<lparr> file_name = filename, file_type = blobType mime, file_bytes = bytes \<rparr>"
proof -
  let ?u = "''data:'' @ mime @ '';base64,'' @ payload"
  have nc: "\<And>ch. ch \<in> set mime \<Longrightarrow> ch \<noteq> CHR '',''"
    using assms(2) by auto
  have np: "\<And>ch. ch \<in> set payload \<Longrightarrow> ch \<noteq> CHR '',''"
    using assms(5) by auto
  have pre: "before_comma ?u = ''data:'' @ mime @ '';base64''"
    by (simp add: before_comma_def takeWhile_append2 [OF nc])
  have "after_comma ?u = payload"
    by (simp add: after_comma_def dropWhile_append2 [OF nc])
  then have post: "before_comma (after_comma ?u) = payload"
    using np by (simp add: before_comma_def)
  have "lazy_until_semicolon (mime @ CHR '';'' # ''base64'') = Some mime"
    using assms(3,4) by (rule lazy_until_semicolon_append)
  then have mm: "mimeMatch (''data:'' @ mime @ '';base64'') = Some mime"
    by simp
  have "CHR '','' \<in> set ?u" by simp
  then have "\<not> length (split_comma ?u) < 2" "split_comma ?u ! 1 = before_comma (after_comma ?u)"
    by (simp_all only: split_comma_length split_comma_second not_not)
  moreover have "split_comma ?u ! 0 = before_comma ?u" by (rule split_comma_first)
  ultimately show ?thesis
    using pre post mm assms(1,6)
    by (simp add: dataURLtoFile_def newFile_def Let_def del: split_comma.simps)
qed

text \<open>
  The first string has a comma and a MIME type before it, and its decoding fails: the
  payload is not base64. In the second string the text after the first comma is not
  base64 as a whole, and the decoding succeeds on the part up to the second comma.
  The third string has the MIME type in upper case, and the file has it in lower case.
\<close>

theorem decode_fails_on_payload_counterexample:
  "CHR '','' \<in> set ''data:image/png;base64,!''
   \<and> mimeMatch (before_comma ''data:image/png;base64,!'') = Some ''image/png''
   \<and> dataURLtoFile ''data:image/png;base64,!'' ''x.png'' = Inl atob_error
   \<and> after_comma ''data:image/png;base64,QUJD,!'' = ''QUJD,!''
   \<and> atob ''QUJD,!'' = None
   \<and> dataURLtoFile ''data:image/png;base64,QUJD,!'' ''x.png'' =
        Inr \<lparr> file_name = ''x.png'', file_type = ''image/png'', file_bytes = [65, 66, 67] \<rparr>
   \<and> mimeMatch (before_comma ''data:IMAGE/PNG;base64,QUJD'') = Some ''IMAGE/PNG''
   \<and> dataURLtoFile ''data:IMAGE/PNG;base64,QUJD'' ''x.png'' =
        Inr \<lparr> file_name = ''x.png'', file_type = ''image/png'', file_bytes = [65, 66, 67] \<rparr>"
  by (simp add: dataURLtoFile_def atob_def strip_padding_def ascii_whitespace_def
      base64_value_def line_terminator_def before_comma_def after_comma_def
      newFile_def blobType_def ascii_lowercase_def Let_def)

text \<open>
  C6, as the program has it. Decoding a data URL fails exactly when the string has no
  comma, or the segment before the first comma has no match of \<open>:(.*?);\<close> with a
  non-empty capture, or the segment between the first and the second comma is not
  base64. When it succeeds, the file has the given name and the bytes that this
  segment decodes to; its MIME type is the captured text as the \<open>File\<close> constructor
  stores it: in lower case, or empty when the text has a character outside U+0020 to
  U+007E; a captured text of such characters without upper-case letters is the MIME
  type as it stands. Reading a file into a request part splits the
  data URL of the reader in the same way, without decoding the payload: it fails
  exactly in the first two cases.
\<close>

theorem decode_failure_cases:
  "((\<exists>e. dataURLtoFile u filename = Inl e) \<longleftrightarrow>
      CHR '','' \<notin> set u
      \<or> mimeMatch (before_comma u) = None \<or> mimeMatch (before_comma u) = Some []
      \<or> atob (before_comma (after_comma u)) = None)
   \<and> (\<forall>f. dataURLtoFile u filename = Inr f \<longrightarrow>
         file_name f = filename
         \<and> (\<exists>m. mimeMatch (before_comma u) = Some m \<and> m \<noteq> []
                \<and> file_type f = blobType m
                \<and> ((\<forall>ch \<in> set m. 32 \<le> (of_char ch :: nat) \<and> (of_char ch :: nat) \<le> 126)
                     \<and> (\<forall>ch \<in> set m. ch \<notin> set ''ABCDEFGHIJKLMNOPQRSTUVWXYZ'')
                    \<longrightarrow> file_type f = m))
         \<and> atob (before_comma (after_comma u)) = Some (file_bytes f))
   \<and> (readAsDataURL env blob = Inr u \<longrightarrow>
         ((\<exists>e. fileToPart env blob = Inl e) \<longleftrightarrow>
            CHR '','' \<notin> set u
            \<or> mimeMatch (before_comma u) = None \<or> mimeMatch (before_comma u) = Some [])
         \<and> (\<forall>m payload. fileToPart env blob = Inr (InlineDataPart m payload) \<longrightarrow>
               mimeMatch (before_comma u) = Some m \<and> payload = before_comma (after_comma u)))"
proof (cases "CHR '','' \<in> set u")
  case True
  then have "\<not> length (split_comma u) < 2"
    by (simp add: split_comma_length)
  moreover have "split_comma u ! 0 = before_comma u"
    by (rule split_comma_first)
  moreover have "split_comma u ! 1 = before_comma (after_comma u)"
    using True by (rule split_comma_second)
  ultimately show ?thesis
    using True
    by (auto simp: dataURLtoFile_def fileToPart_def newFile_def blobType_kept Let_def
        split: option.splits)
next
  case False
  then have "length (split_comma u) < 2"
    by (simp add: split_comma_length)
  with False show ?thesis
    by (simp add: dataURLtoFile_def fileToPart_def Let_def)
qed

theorem decode_failure_cases_witness:
  "dataURLtoFile ''data:image/png;base64,QUJD'' ''edited-0.png'' =
     Inr \<lparr> file_name = ''edited-0.png'', file_type = ''image/png'', file_bytes = [65, 66, 67] \<rparr>
   \<and> mimeMatch (before_comma ''data:image/png;base64,QUJD'') = Some ''image/png''
   \<and> atob (before_comma (after_comma ''data:image/png;base64,QUJD'')) = Some [65, 66, 67]
   \<and> readAsDataURL sampleEnv (sampleFile ''a'') = Inr ''data:image/png;base64,QUJD''
   \<and> fileToPart sampleEnv (sampleFile ''a'') = Inr (InlineDataPart ''image/png'' ''QUJD'')
   \<and> before_comma (after_comma ''data:image/png;base64,QUJD'') = ''QUJD''"
proof -
  have dec: "dataURLtoFile ''data:image/png;base64,QUJD'' ''edited-0.png'' =
     Inr \<lparr> file_name = ''edited-0.png'', file_type = ''image/png'', file_bytes = [65, 66, 67] \<rparr>"
    by (rule sample_decode)
  have rd: "readAsDataURL sampleEnv (sampleFile ''a'') = Inr ''data:image/png;base64,QUJD''"
    by (simp add: sampleEnv_def sampleReader_def sampleFile_def)
  have part: "fileToPart sampleEnv (sampleFile ''a'') = Inr (InlineDataPart ''image/png'' ''QUJD'')"
    by (rule sample_fileToPart)
  have seg: "before_comma (after_comma ''data:image/png;base64,QUJD'') = ''QUJD''"
    by (simp add: before_comma_def after_comma_def)
  from decode_failure_cases
         [where u = "''data:image/png;base64,QUJD''" and filename = "''edited-0.png''"
            and env = sampleEnv and blob = "sampleFile ''a''"]
       dec rd part seg
  show ?thesis by simp
qed

section \<open>Names of archive entries\<close>

lemma digit_char:
  assumes "d < 10"
  shows "is_digit (''0123456789'' ! d)" and "digit_value (''0123456789'' ! d) = d"
proof -
  from assms have "d \<in> {0, 1, 2, 3, 4, 5, 6, 7, 8, 9}" by auto
  then show "is_digit (''0123456789'' ! d)" and "digit_value (''0123456789'' ! d) = d"
    by (auto simp: is_digit_def digit_value_def)
qed

lemma decimal_digits: "\<forall>ch \<in> set (decimal n). is_digit ch"
proof (induction n rule: decimal.induct)
  case (1 n)
  show ?case
  proof (cases "n < 10")
    case True
    then show ?thesis by (subst decimal.simps) (simp add: digit_char)
  next
    case False
    with 1 show ?thesis by (subst decimal.simps) (simp add: digit_char)
  qed
qed

lemma decimal_value_snoc: "decimal_value (ds @ [ch]) = 10 * decimal_value ds + digit_value ch"
  by (simp add: decimal_value_def)

lemma decimal_value_decimal: "decimal_value (decimal n) = n"
proof (induction n rule: decimal.induct)
  case (1 n)
  show ?case
  proof (cases "n < 10")
    case True
    then show ?thesis
      by (subst decimal.simps) (simp add: decimal_value_def digit_char)
  next
    case False
    with 1 have "decimal_value (decimal (n div 10)) = n div 10" by simp
    with False show ?thesis
      by (subst decimal.simps) (simp add: decimal_value_snoc digit_char)
  qed
qed

lemma decimal_value_zeros: "decimal_value (replicate k (CHR ''0'') @ ds) = decimal_value ds"
proof -
  have "foldl (\<lambda>acc ch. 10 * acc + digit_value ch) 0 (replicate k (CHR ''0'')) = 0"
    by (induction k) (simp_all add: digit_value_def)
  then show ?thesis by (simp add: decimal_value_def)
qed

lemma indexPrefix_value: "decimal_value (indexPrefix i) = i"
  by (simp add: indexPrefix_def padStart_def decimal_value_zeros decimal_value_decimal)

lemma indexPrefix_digits: "\<forall>ch \<in> set (indexPrefix i). is_digit ch"
proof -
  have "is_digit (CHR ''0'')" by (simp add: is_digit_def)
  with decimal_digits [of i] show ?thesis
    by (auto simp: indexPrefix_def padStart_def)
qed

lemma entryName_prefix:
  "takeWhile (\<lambda>ch. ch \<noteq> CHR ''_'') (entryName i f) = indexPrefix i"
proof -
  have "\<not> is_digit (CHR ''_'')" by (simp add: is_digit_def)
  then have "\<forall>ch \<in> set (indexPrefix i). ch \<noteq> CHR ''_''"
    using indexPrefix_digits [of i] by blast
  then show ?thesis
    by (simp add: entryName_def indexPrefix_def [symmetric])
qed

lemma entryName_inj: "entryName i f = entryName j g \<Longrightarrow> i = j"
  by (metis entryName_prefix indexPrefix_value)


lemma zip_file_fresh:
  "entry \<notin> fst ` set entries \<Longrightarrow> zip_file entry file entries = entries @ [(entry, file)]"
  by (induction entries) auto

lemma addEntries_all:
  assumes "\<forall>e \<in> set entries. \<exists>i g. i < k \<and> fst e = entryName i g"
  shows "addEntries (map Some files) k entries = Inr (entries @ archiveEntries k files)"
  using assms
proof (induction files arbitrary: k entries)
  case Nil
  then show ?case by (simp add: archiveEntries_def)
next
  case (Cons x xs)
  have fresh: "entryName k x \<notin> fst ` set entries"
  proof
    assume "entryName k x \<in> fst ` set entries"
    then obtain e where "e \<in> set entries" "fst e = entryName k x" by auto
    with Cons.prems obtain i g where "i < k" "entryName k x = entryName i g" by metis
    then show False using entryName_inj by blast
  qed
  have "\<forall>e \<in> set (entries @ [(entryName k x, x)]). \<exists>i g. i < Suc k \<and> fst e = entryName i g"
  proof
    fix e
    assume "e \<in> set (entries @ [(entryName k x, x)])"
    then consider "e \<in> set entries" | "e = (entryName k x, x)" by auto
    then show "\<exists>i g. i < Suc k \<and> fst e = entryName i g"
    proof cases
      case 1
      with Cons.prems obtain i g where "i < k" "fst e = entryName i g" by blast
      then have "i < Suc k \<and> fst e = entryName i g" by simp
      then show ?thesis by blast
    next
      case 2
      then have "k < Suc k \<and> fst e = entryName k x" by simp
      then show ?thesis by blast
    qed
  qed
  then have "addEntries (map Some xs) (Suc k) (entries @ [(entryName k x, x)])
      = Inr ((entries @ [(entryName k x, x)]) @ archiveEntries (Suc k) xs)"
    by (rule Cons.IH)
  with fresh show ?case
    by (simp add: zip_file_fresh archiveEntries_def)
qed

lemma prefix_three_digits:
  assumes "i < 1000"
  shows "indexPrefix i = [''0123456789'' ! (i div 100), ''0123456789'' ! (i div 10 mod 10),
                          ''0123456789'' ! (i mod 10)]"
proof -
  consider "i < 10" | "10 \<le> i" "i < 100" | "100 \<le> i"
    by linarith
  then show ?thesis
  proof cases
    case 1
    then show ?thesis
      by (simp add: indexPrefix_def padStart_def decimal.simps [of i] numeral_2_eq_2)
  next
    case 2
    then have "i div 10 < 10" "i div 100 = 0" by simp_all
    with 2 show ?thesis
      by (simp add: indexPrefix_def padStart_def decimal.simps [of i] decimal.simps [of "i div 10"])
  next
    case 3
    with assms have "i div 10 div 10 < 10" "\<not> i div 10 < 10" "i div 10 div 10 = i div 100"
      by (simp_all add: div_mult2_eq [symmetric])
    with 3 show ?thesis
      by (simp add: indexPrefix_def padStart_def decimal.simps [of i] decimal.simps [of "i div 10"]
          decimal.simps [of "i div 100"])
  qed
qed


lemma indexPrefix_length: "length (indexPrefix i) = max 3 (length (decimal i))"
  by (simp add: indexPrefix_def padStart_def)

lemma archiveEntries_nth:
  assumes "i < length files"
  shows "archiveEntries k files ! i = (entryName (k + i) (files ! i), files ! i)"
  using assms by (simp add: archiveEntries_def nth_enumerate_eq)

text \<open>
  C8, as the program has it. For a non-empty list of files, when the archive library
  loads and builds the archive, the archive has one entry for each file, in order, and
  the entry at position \<open>i\<close> holds the file at position \<open>i\<close> under the name made of
  the index part, an underscore, and the file name in which every character outside
  \<open>[A-Za-z0-9_.-]\<close> is replaced by an underscore. The index part is the decimal
  numeral of \<open>i\<close> with zeros put before it as long as it has fewer than three digits:
  it has exactly three digits for \<open>i\<close> below 1000, and the digits of \<open>i\<close> from 1000 on.
  For an empty list the handler reports the error and starts no download.
\<close>

theorem archive_entry_names:
  "(files \<noteq> [] \<and> importJSZip zenv = None \<and> generateAsync zenv = None \<longrightarrow>
      (\<exists>entries.
          snd (handleDownloadZip zenv s (map Some files) archiveName)
            = Some (archiveName @ ''.zip'', entries)
          \<and> length entries = length files
          \<and> (\<forall>i < length files.
                entries ! i =
                  (indexPrefix i @ ''_'' @ sanitized (file_name (files ! i)), files ! i))))
   \<and> (\<forall>i. decimal_value (indexPrefix i) = i
          \<and> (\<forall>ch \<in> set (indexPrefix i). is_digit ch)
          \<and> length (indexPrefix i) = max 3 (length (decimal i))
          \<and> indexPrefix i = replicate (3 - length (decimal i)) (CHR ''0'') @ decimal i
          \<and> decimal_value (decimal i) = i)
   \<and> (\<forall>i < 1000. indexPrefix i =
          [''0123456789'' ! (i div 100), ''0123456789'' ! (i div 10 mod 10),
           ''0123456789'' ! (i mod 10)])
   \<and> (\<forall>n. length (sanitized n) = length n
          \<and> (\<forall>k < length n. sanitized n ! k = (if in_class (n ! k) then n ! k else CHR ''_'')))
   \<and> handleDownloadZip zenv s [] archiveName =
        (s\<lparr> error := Some ''No images selected to download.'' \<rparr>, None)"
proof (intro conjI allI impI)
  assume a: "files \<noteq> [] \<and> importJSZip zenv = None \<and> generateAsync zenv = None"
  have "addEntries (map Some files) 0 [] = Inr ([] @ archiveEntries 0 files)"
    by (rule addEntries_all) simp
  with a have "snd (handleDownloadZip zenv s (map Some files) archiveName)
      = Some (archiveName @ ''.zip'', archiveEntries 0 files)"
    by (simp add: handleDownloadZip_def)
  moreover have "length (archiveEntries 0 files) = length files"
    by (simp add: archiveEntries_def)
  moreover have "\<forall>i < length files. archiveEntries 0 files ! i =
      (indexPrefix i @ ''_'' @ sanitized (file_name (files ! i)), files ! i)"
    by (simp add: archiveEntries_nth entryName_def indexPrefix_def)
  ultimately show "\<exists>entries.
          snd (handleDownloadZip zenv s (map Some files) archiveName)
            = Some (archiveName @ ''.zip'', entries)
          \<and> length entries = length files
          \<and> (\<forall>i < length files.
                entries ! i =
                  (indexPrefix i @ ''_'' @ sanitized (file_name (files ! i)), files ! i))"
    by blast
next
  fix i
  show "decimal_value (indexPrefix i) = i"
    by (rule indexPrefix_value)
  show "\<forall>ch \<in> set (indexPrefix i). is_digit ch"
    by (rule indexPrefix_digits)
  show "length (indexPrefix i) = max 3 (length (decimal i))"
    by (rule indexPrefix_length)
  show "indexPrefix i = replicate (3 - length (decimal i)) (CHR ''0'') @ decimal i"
    by (simp add: indexPrefix_def padStart_def)
  show "decimal_value (decimal i) = i"
    by (rule decimal_value_decimal)
  show "indexPrefix i =
          [''0123456789'' ! (i div 100), ''0123456789'' ! (i div 10 mod 10),
           ''0123456789'' ! (i mod 10)]" if "i < 1000"
    using that by (rule prefix_three_digits)
next
  fix n
  show "length (sanitized n) = length n"
    by (simp add: sanitized_def)
  show "sanitized n ! k = (if in_class (n ! k) then n ! k else CHR ''_'')" if "k < length n" for k
    using that by (simp add: sanitized_def)
next
  show "handleDownloadZip zenv s [] archiveName =
        (s\<lparr> error := Some ''No images selected to download.'' \<rparr>, None)"
    by (simp add: handleDownloadZip_def)
qed

theorem archive_entry_names_witness:
  "[sampleFile ''my photo(1).png'', sampleFile ''b.png''] \<noteq> []
   \<and> snd (handleDownloadZip \<lparr> importJSZip = None, generateAsync = None \<rparr> sampleSession
        (map Some [sampleFile ''my photo(1).png'', sampleFile ''b.png'']) ''dreamcraft_selection'')
      = Some (''dreamcraft_selection.zip'',
              [(''000_my_photo_1_.png'', sampleFile ''my photo(1).png''),
               (''001_b.png'', sampleFile ''b.png'')])
   \<and> indexPrefix 7 = ''007''
   \<and> sanitized ''my photo(1).png'' = ''my_photo_1_.png''"
proof -
  have names: "entryName 0 (sampleFile ''my photo(1).png'') = ''000_my_photo_1_.png''"
    "entryName (Suc 0) (sampleFile ''b.png'') = ''001_b.png''"
    by (simp_all add: entryName_def padStart_def decimal.simps sanitized_def in_class_def
        sampleFile_def numeral_2_eq_2)
  have download: "snd (handleDownloadZip \<lparr> importJSZip = None, generateAsync = None \<rparr>
        sampleSession
        (map Some [sampleFile ''my photo(1).png'', sampleFile ''b.png'']) ''dreamcraft_selection'')
      = Some (''dreamcraft_selection.zip'',
              [(''000_my_photo_1_.png'', sampleFile ''my photo(1).png''),
               (''001_b.png'', sampleFile ''b.png'')])"
    by (simp add: handleDownloadZip_def names)
  have seven: "indexPrefix 7 = ''007''"
    using archive_entry_names [THEN conjunct2, THEN conjunct2, THEN conjunct1, rule_format, of 7]
    by simp
  have name: "sanitized ''my photo(1).png'' = ''my_photo_1_.png''"
    by (simp add: sanitized_def in_class_def)
  from archive_entry_names
         [where files = "[sampleFile ''my photo(1).png'', sampleFile ''b.png'']"
            and zenv = "\<lparr> importJSZip = None, generateAsync = None \<rparr>"
            and s = sampleSession and archiveName = "''dreamcraft_selection''"]
       download seven name
  show ?thesis by simp
qed

text \<open>
  A history of 1001 files is exported. The entry of the file at position 1000 has the
  index part \<open>1000\<close>, of four digits.
\<close>

lemma entryName_thousand: "entryName 1000 (sampleFile ''a.png'') = ''1000_a.png''"
  by (simp add: entryName_def padStart_def decimal.simps sanitized_def in_class_def sampleFile_def)

theorem archive_index_four_digits_counterexample:
  "snd (downloadHistory \<lparr> importJSZip = None, generateAsync = None \<rparr>
          (sampleState (replicate 1001 (sampleFile ''a.png'')) 1000))
     = Some (''dreamcraft_session_history.zip'',
             archiveEntries 0 (replicate 1001 (sampleFile ''a.png'')))
   \<and> length (archiveEntries 0 (replicate 1001 (sampleFile ''a.png''))) = 1001
   \<and> archiveEntries 0 (replicate 1001 (sampleFile ''a.png'')) ! 1000
     = (''1000_a.png'', sampleFile ''a.png'')
   \<and> indexPrefix 1000 = ''1000''"
proof -
  define fs where "fs = replicate 1001 (sampleFile ''a.png'')"
  have len: "length fs = 1001"
    by (simp only: fs_def length_replicate)
  have last_file: "fs ! 1000 = sampleFile ''a.png''"
    by (simp add: fs_def)
  have "addEntries (map Some fs) 0 [] = Inr ([] @ archiveEntries 0 fs)"
    by (rule addEntries_all) simp
  moreover have "history (sampleState fs 1000) = fs"
    by (simp add: sampleState_def)
  moreover have "fs \<noteq> []"
    using len by auto
  ultimately have download: "snd (downloadHistory \<lparr> importJSZip = None, generateAsync = None \<rparr>
          (sampleState fs 1000))
     = Some (''dreamcraft_session_history.zip'', archiveEntries 0 fs)"
    by (simp add: downloadHistory_def handleDownloadZip_def)
  have count: "length (archiveEntries 0 fs) = 1001"
    using len by (simp add: archiveEntries_def)
  have "1000 < length fs"
    using len by simp
  then have "archiveEntries 0 fs ! 1000 = (entryName (0 + 1000) (fs ! 1000), fs ! 1000)"
    by (rule archiveEntries_nth)
  then have entry: "archiveEntries 0 fs ! 1000 = (''1000_a.png'', sampleFile ''a.png'')"
    by (simp add: last_file entryName_thousand)
  have prefix: "indexPrefix 1000 = ''1000''"
    by (simp add: indexPrefix_def padStart_def decimal.simps)
  from download count entry prefix show ?thesis
    by (simp only: fs_def)
qed

end
